theory Spec2Isabelle
  imports Complex_Main
begin

section \<open>Company valuation: a shallow embedding of main.py\<close>

text \<open>
  The program reads financial statements (pandas data frames obtained from Yahoo Finance),
  resolves a few line items through fallback chains, and computes per-share value
  estimates by five methods. The embedding keeps the control flow of the source:
  every \<^verbatim>\<open>try ... except\<close> is a branch on a sum type, every dictionary lookup may miss,
  every positional read may be out of range.

  Numbers. Python floats are idealised as real numbers: arithmetic on finite values is
  exact, rounding and overflow are outside the model, and every cell of a data frame is a
  number (a missing value, NaN, does not occur). No statement below therefore says of a
  value of the program that it is finite; statements give the value that exact arithmetic
  yields. The values read from a data frame
  with \<^verbatim>\<open>.iloc[-1]\<close> are numpy scalars; dividing a numpy scalar by zero does not raise,
  it yields \<^verbatim>\<open>inf\<close> or \<^verbatim>\<open>nan\<close> (with a warning). Such a result is the value \<open>NonFinite\<close>
  below. Every later operation of the program on a non-finite value (adding or
  subtracting a number, multiplying or dividing by a finite number) is non-finite again,
  so the three IEEE specials need not be told apart.
\<close>

subsection \<open>Errors and numbers\<close>

datatype py_error = KeyError | IndexError | TypeError | FetchError

datatype num = Fin real | NonFinite

fun np_add :: "num \<Rightarrow> num \<Rightarrow> num" where
  "np_add (Fin a) (Fin b) = Fin (a + b)"
| "np_add _ _ = NonFinite"

fun np_sub :: "num \<Rightarrow> num \<Rightarrow> num" where
  "np_sub (Fin a) (Fin b) = Fin (a - b)"
| "np_sub _ _ = NonFinite"

text \<open>Multiplication and division by a finite Python number (a parameter, a profile
  field or a list length).\<close>

fun np_mul :: "num \<Rightarrow> real \<Rightarrow> num" where
  "np_mul (Fin a) b = Fin (a * b)"
| "np_mul NonFinite _ = NonFinite"

fun np_div :: "num \<Rightarrow> real \<Rightarrow> num" where
  "np_div (Fin a) b = (if b = 0 then NonFinite else Fin (a / b))"
| "np_div NonFinite _ = NonFinite"

text \<open>Python's \<^verbatim>\<open>sum\<close>: a left fold from 0.\<close>

definition np_sum :: "num list \<Rightarrow> num" where
  "np_sum xs = foldl np_add (Fin 0) xs"

text \<open>Truthiness of a number: zero is falsy; \<^verbatim>\<open>inf\<close> and \<^verbatim>\<open>nan\<close> are truthy.\<close>

fun truthy :: "num \<Rightarrow> bool" where
  "truthy (Fin a) = (a \<noteq> 0)"
| "truthy NonFinite = True"

subsection \<open>Sequencing of fallible steps\<close>

definition then_do :: "py_error + 'a \<Rightarrow> ('a \<Rightarrow> py_error + 'b) \<Rightarrow> py_error + 'b" where
  "then_do m f = (case m of Inl e \<Rightarrow> Inl e | Inr x \<Rightarrow> f x)"

text \<open>\<^verbatim>\<open>try: a except: b\<close> with a bare \<^verbatim>\<open>except\<close>, which catches everything.\<close>

definition orelse :: "py_error + 'a \<Rightarrow> py_error + 'a \<Rightarrow> py_error + 'a" where
  "orelse a b = (case a of Inl _ \<Rightarrow> b | Inr x \<Rightarrow> Inr x)"

text \<open>\<^verbatim>\<open>try: return a except Exception: return None\<close>.\<close>

definition catch :: "py_error + 'a \<Rightarrow> 'a option" where
  "catch a = (case a of Inl _ \<Rightarrow> None | Inr x \<Rightarrow> Some x)"

subsection \<open>The financial dataset\<close>

text \<open>
  A data frame is a mapping from a label to the sequence of its values (a statement
  maps a line item to its period values; the price history maps a column to its rows).
  \<^verbatim>\<open>df.loc[k]\<close> raises KeyError on a missing label, \<^verbatim>\<open>.iloc[-1]\<close> raises IndexError on
  an empty sequence.
\<close>

type_synonym frame = "string \<rightharpoonup> real list"

record profile =
  facts :: "string \<rightharpoonup> real"
  longName :: "string option"

record financial_data =
  hist :: frame
  income_stmt :: frame
  balance_sheet :: frame
  cash_flow :: frame
  info :: profile

definition loc :: "frame \<Rightarrow> string \<Rightarrow> py_error + real list" where
  "loc df k = (case df k of None \<Rightarrow> Inl KeyError | Some xs \<Rightarrow> Inr xs)"

definition iloc_last :: "'a list \<Rightarrow> py_error + 'a" where
  "iloc_last xs = (case xs of [] \<Rightarrow> Inl IndexError | _ \<Rightarrow> Inr (last xs))"

definition loc_last :: "frame \<Rightarrow> string \<Rightarrow> py_error + real" where
  "loc_last df k = then_do (loc df k) iloc_last"

text \<open>\<^verbatim>\<open>info.get('sharesOutstanding', 1)\<close>.\<close>

definition shares_outstanding :: "profile \<Rightarrow> real" where
  "shares_outstanding p = (case facts p ''sharesOutstanding'' of None \<Rightarrow> 1 | Some s \<Rightarrow> s)"

text \<open>
  The block that resolves cash and debt (lines 74--80, repeated at 239--244, 365--370
  and 385--390): both primary reads share one \<^verbatim>\<open>try\<close>; when either fails, both values
  are taken from the secondary items, each defaulting to 0 when its label is missing.
\<close>

definition cash_and_debt :: "frame \<Rightarrow> py_error + (real \<times> real)" where
  "cash_and_debt bs =
     orelse
       (then_do (loc_last bs ''Cash And Cash Equivalents'') (\<lambda>cash.
        then_do (loc_last bs ''Total Debt'') (\<lambda>debt.
        Inr (cash, debt))))
       (then_do (if bs ''Cash And Short Term Investments'' \<noteq> None
                 then loc_last bs ''Cash And Short Term Investments'' else Inr 0) (\<lambda>cash.
        then_do (if bs ''Long Term Debt'' \<noteq> None
                 then loc_last bs ''Long Term Debt'' else Inr 0) (\<lambda>debt.
        Inr (cash, debt))))"

subsection \<open>Discounted cash flow (lines 38--98)\<close>

record dcf_result =
  enterprise_value :: num
  equity_value :: num
  dcf_value_per_share :: num
  projected_cash_flows :: "real list"
  present_values :: "num list"
  terminal_value :: num

text \<open>Lines 47--53: operating cash flow minus the magnitude of capital expenditure,
  or operating cash flow alone.\<close>

definition free_cash_flow :: "frame \<Rightarrow> py_error + real" where
  "free_cash_flow cf =
     orelse
       (then_do (loc_last cf ''Operating Cash Flow'') (\<lambda>operating_cash_flow.
        then_do (loc_last cf ''Capital Expenditure'') (\<lambda>capital_expenditures.
        Inr (operating_cash_flow - \<bar>capital_expenditures\<bar>))))
       (loc_last cf ''Operating Cash Flow'')"

definition dcf_valuation ::
  "financial_data \<Rightarrow> real \<Rightarrow> real \<Rightarrow> real \<Rightarrow> int \<Rightarrow> dcf_result option" where
  "dcf_valuation fd growth_rate discount_rate terminal_growth_rate years =
     catch (
       then_do (free_cash_flow (cash_flow fd)) (\<lambda>fcf0.
       let projected = map (\<lambda>i. fcf0 * (1 + growth_rate) ^ nat i) [1..years] in
       then_do (iloc_last projected) (\<lambda>last_cf.
       let tv = np_div (Fin (last_cf * (1 + terminal_growth_rate)))
                       (discount_rate - terminal_growth_rate);
           pvs = map (\<lambda>(i, cf). np_div (Fin cf) ((1 + discount_rate) ^ (i + 1)))
                     (enumerate 0 projected);
           pv_terminal = np_div tv ((1 + discount_rate) ^ nat years);
           ev = np_add (np_sum pvs) pv_terminal in
       then_do (cash_and_debt (balance_sheet fd)) (\<lambda>(cash, debt).
       let eqv = np_sub (np_add ev (Fin cash)) (Fin debt);
           shares = shares_outstanding (info fd) in
       Inr \<lparr> enterprise_value = ev,
             equity_value = eqv,
             dcf_value_per_share = np_div eqv shares,
             projected_cash_flows = projected,
             present_values = pvs,
             terminal_value = tv \<rparr>))))"

subsection \<open>The data source and \<^verbatim>\<open>get_financial_data\<close> (lines 8--36)\<close>

text \<open>
  Yahoo Finance is a function from a ticker symbol to what each read of that ticker
  yields: a frame, a profile, or an exception. It is read-only and answers the same
  way each time it is asked within one run.
\<close>

record ticker_obj =
  t_history :: "py_error + frame"
  t_income_stmt :: "py_error + frame"
  t_balance_sheet :: "py_error + frame"
  t_cashflow :: "py_error + frame"
  t_info :: "py_error + profile"

type_synonym yfinance = "string \<Rightarrow> ticker_obj"

definition get_financial_data :: "yfinance \<Rightarrow> string \<Rightarrow> financial_data option" where
  "get_financial_data yf ticker_symbol =
     catch (
       then_do (t_history (yf ticker_symbol)) (\<lambda>h.
       then_do (t_income_stmt (yf ticker_symbol)) (\<lambda>i.
       then_do (t_balance_sheet (yf ticker_symbol)) (\<lambda>b.
       then_do (t_cashflow (yf ticker_symbol)) (\<lambda>c.
       then_do (t_info (yf ticker_symbol)) (\<lambda>p.
       Inr \<lparr> hist = h, income_stmt = i, balance_sheet = b, cash_flow = c, info = p \<rparr>))))))"

subsection \<open>Multiples of peers and the fallback to the company's own multiple\<close>

text \<open>
  The loop of lines 116--124 (the same at 163--171 and 216--224 with another key):
  a peer whose profile cannot be read is skipped; a multiple is kept when it is truthy
  and positive.
\<close>

fun peer_ratios :: "yfinance \<Rightarrow> string \<Rightarrow> string list \<Rightarrow> real list" where
  "peer_ratios yf key [] = []"
| "peer_ratios yf key (t # ts) =
     (case t_info (yf t) of
        Inl _ \<Rightarrow> peer_ratios yf key ts
      | Inr p \<Rightarrow>
          (case facts p key of
             None \<Rightarrow> peer_ratios yf key ts
           | Some r \<Rightarrow> if r \<noteq> 0 \<and> r > 0 then r # peer_ratios yf key ts
                       else peer_ratios yf key ts))"

text \<open>\<^verbatim>\<open>info.get(key, default)\<close>.\<close>

definition get_default :: "profile \<Rightarrow> string \<Rightarrow> real \<Rightarrow> real" where
  "get_default p key d = (case facts p key of None \<Rightarrow> d | Some v \<Rightarrow> v)"

text \<open>Lines 115--133: \<^verbatim>\<open>target_companies\<close> is \<^verbatim>\<open>None\<close> or a list; both \<^verbatim>\<open>None\<close> and the
  empty list are falsy.\<close>

definition average_multiple ::
  "yfinance \<Rightarrow> financial_data \<Rightarrow> string \<Rightarrow> real \<Rightarrow> string list option \<Rightarrow> real" where
  "average_multiple yf fd key d target_companies =
     (case target_companies of
        Some (t # ts) \<Rightarrow>
          (let ratios = peer_ratios yf key (t # ts) in
           if ratios \<noteq> [] then sum_list ratios / real (length ratios)
           else get_default (info fd) key d)
      | _ \<Rightarrow> get_default (info fd) key d)"

subsection \<open>Price to earnings (lines 100--145)\<close>

record pe_result =
  eps :: num
  average_pe :: real
  pe_value_per_share :: num

text \<open>Lines 106--112 (and 322--327): the profile's trailing EPS when truthy, else net
  income over the share count.\<close>

definition earnings_per_share :: "financial_data \<Rightarrow> py_error + num" where
  "earnings_per_share fd =
     (case facts (info fd) ''trailingEPS'' of
        Some e \<Rightarrow>
          if e \<noteq> 0 then Inr (Fin e)
          else then_do (loc_last (income_stmt fd) ''Net Income'') (\<lambda>net_income.
               Inr (np_div (Fin net_income) (shares_outstanding (info fd))))
      | None \<Rightarrow>
          then_do (loc_last (income_stmt fd) ''Net Income'') (\<lambda>net_income.
          Inr (np_div (Fin net_income) (shares_outstanding (info fd)))))"

definition pe_valuation ::
  "yfinance \<Rightarrow> financial_data \<Rightarrow> string list option \<Rightarrow> pe_result option" where
  "pe_valuation yf fd target_companies =
     catch (
       then_do (earnings_per_share fd) (\<lambda>e.
       let avg = average_multiple yf fd ''trailingPE'' 15 target_companies in
       Inr \<lparr> eps = e, average_pe = avg, pe_value_per_share = np_mul e avg \<rparr>))"

subsection \<open>Price to book value (lines 147--192)\<close>

record pbv_result =
  bvps :: num
  average_pbv :: real
  pbv_value_per_share :: num

definition book_value_per_share :: "financial_data \<Rightarrow> py_error + num" where
  "book_value_per_share fd =
     (case facts (info fd) ''bookValue'' of
        Some b \<Rightarrow>
          if b \<noteq> 0 then Inr (Fin b)
          else then_do (loc_last (balance_sheet fd) ''Total Stockholder Equity'') (\<lambda>total_equity.
               Inr (np_div (Fin total_equity) (shares_outstanding (info fd))))
      | None \<Rightarrow>
          then_do (loc_last (balance_sheet fd) ''Total Stockholder Equity'') (\<lambda>total_equity.
          Inr (np_div (Fin total_equity) (shares_outstanding (info fd)))))"

definition pbv_valuation ::
  "yfinance \<Rightarrow> financial_data \<Rightarrow> string list option \<Rightarrow> pbv_result option" where
  "pbv_valuation yf fd target_companies =
     catch (
       then_do (book_value_per_share fd) (\<lambda>b.
       let avg = average_multiple yf fd ''priceToBook'' 2 target_companies in
       Inr \<lparr> bvps = b, average_pbv = avg, pbv_value_per_share = np_mul b avg \<rparr>))"

subsection \<open>EV/EBITDA (lines 194--261)\<close>

record ev_ebitda_result =
  ebitda :: real
  average_ev_ebitda :: real
  ev_enterprise_value :: real
  ev_equity_value :: real
  ev_ebitda_value_per_share :: num

text \<open>Lines 200--212 (and 350--361).\<close>

definition ebitda_of :: "financial_data \<Rightarrow> py_error + real" where
  "ebitda_of fd =
     orelse
       (then_do (loc_last (income_stmt fd) ''EBIT'') (\<lambda>ebit.
        then_do (orelse (loc_last (income_stmt fd) ''Depreciation And Amortization'')
                        (loc_last (cash_flow fd) ''Depreciation'')) (\<lambda>depreciation.
        Inr (ebit + depreciation))))
       (then_do (loc_last (income_stmt fd) ''Income Before Tax'') (\<lambda>e.
        if income_stmt fd ''Interest Expense'' \<noteq> None
        then then_do (loc_last (income_stmt fd) ''Interest Expense'') (\<lambda>i. Inr (e + \<bar>i\<bar>))
        else Inr e))"

definition ev_ebitda_valuation ::
  "yfinance \<Rightarrow> financial_data \<Rightarrow> string list option \<Rightarrow> ev_ebitda_result option" where
  "ev_ebitda_valuation yf fd target_companies =
     catch (
       then_do (ebitda_of fd) (\<lambda>e.
       let avg = average_multiple yf fd ''enterpriseToEbitda'' 10 target_companies;
           ev = e * avg in
       then_do (cash_and_debt (balance_sheet fd)) (\<lambda>(cash, debt).
       let eqv = ev + cash - debt;
           shares = shares_outstanding (info fd) in
       Inr \<lparr> ebitda = e, average_ev_ebitda = avg, ev_enterprise_value = ev,
             ev_equity_value = eqv,
             ev_ebitda_value_per_share = np_div (Fin eqv) shares \<rparr>)))"

subsection \<open>Comparable companies (lines 263--412)\<close>

record mm_result =
  average_metrics :: "(string \<times> real) list"
  valuations :: "(string \<times> num) list"
  average_valuation :: "num option"

text \<open>A Python dictionary that is iterated over is an association list in insertion
  order; assigning to a key that is present keeps its place.\<close>

fun dict_set :: "('k \<times> 'v) list \<Rightarrow> 'k \<Rightarrow> 'v \<Rightarrow> ('k \<times> 'v) list" where
  "dict_set [] k v = [(k, v)]"
| "dict_set ((k', v') # kvs) k v =
     (if k' = k then (k, v) # kvs else (k', v') # dict_set kvs k v)"

text \<open>Lines 272--276: peers whose data cannot be fetched are left out.\<close>

definition comparable_data ::
  "yfinance \<Rightarrow> string list \<Rightarrow> (string \<times> financial_data) list" where
  "comparable_data yf target_companies =
     foldl (\<lambda>acc t. case get_financial_data yf t of
                       None \<Rightarrow> acc
                     | Some d \<Rightarrow> dict_set acc t d) [] target_companies"

text \<open>Lines 286--308, for one of the four multiples.\<close>

fun metric_values :: "string \<Rightarrow> (string \<times> financial_data) list \<Rightarrow> real list" where
  "metric_values key [] = []"
| "metric_values key ((t, d) # cds) =
     (case facts (info d) key of
        None \<Rightarrow> metric_values key cds
      | Some r \<Rightarrow> if r \<noteq> 0 \<and> r > 0 then r # metric_values key cds
                  else metric_values key cds)"

text \<open>Lines 311--314.\<close>

definition metric_average ::
  "string \<Rightarrow> string \<Rightarrow> (string \<times> financial_data) list \<Rightarrow> (string \<times> real) list" where
  "metric_average name key cds =
     (let vals = metric_values key cds in
      if vals \<noteq> [] then [(name, sum_list vals / real (length vals))] else [])"

text \<open>Equity value per share from an enterprise value (lines 365--375 and 385--395).\<close>

definition per_share_from_ev :: "financial_data \<Rightarrow> real \<Rightarrow> py_error + num" where
  "per_share_from_ev td ev =
     then_do (cash_and_debt (balance_sheet td)) (\<lambda>(cash, debt).
     Inr (np_div (Fin (ev + cash - debt)) (shares_outstanding (info td))))"

text \<open>One \<^verbatim>\<open>if name in average_metrics: try: ... except: pass\<close> block.\<close>

definition mm_entry ::
  "string \<Rightarrow> (string \<times> real) list \<Rightarrow> (real \<Rightarrow> py_error + num) \<Rightarrow> (string \<times> num) list" where
  "mm_entry name am f =
     (case map_of am name of
        None \<Rightarrow> []
      | Some avg \<Rightarrow> (case f avg of Inl _ \<Rightarrow> [] | Inr v \<Rightarrow> [(name, v)]))"

text \<open>Subscripting \<^verbatim>\<open>None\<close> (the target's data could not be fetched) raises TypeError.\<close>

definition subscript :: "financial_data option \<Rightarrow> py_error + financial_data" where
  "subscript d = (case d of None \<Rightarrow> Inl TypeError | Some td \<Rightarrow> Inr td)"

definition market_multiples_valuation ::
  "yfinance \<Rightarrow> string \<Rightarrow> string list option \<Rightarrow> mm_result option" where
  "market_multiples_valuation yf ticker_symbol target_companies =
     (case target_companies of
        None \<Rightarrow> None
      | Some peers \<Rightarrow>
          (let target_data = get_financial_data yf ticker_symbol;
               cds = comparable_data yf peers;
               am = metric_average ''P/E'' ''trailingPE'' cds
                  @ metric_average ''P/BV'' ''priceToBook'' cds
                  @ metric_average ''EV/EBITDA'' ''enterpriseToEbitda'' cds
                  @ metric_average ''EV/Sales'' ''enterpriseToRevenue'' cds;
               vs = mm_entry ''P/E'' am (\<lambda>avg.
                      then_do (subscript target_data) (\<lambda>td.
                      then_do (earnings_per_share td) (\<lambda>e. Inr (np_mul e avg))))
                  @ mm_entry ''P/BV'' am (\<lambda>avg.
                      then_do (subscript target_data) (\<lambda>td.
                      then_do (book_value_per_share td) (\<lambda>b. Inr (np_mul b avg))))
                  @ mm_entry ''EV/EBITDA'' am (\<lambda>avg.
                      then_do (subscript target_data) (\<lambda>td.
                      then_do (ebitda_of td) (\<lambda>e. per_share_from_ev td (e * avg))))
                  @ mm_entry ''EV/Sales'' am (\<lambda>avg.
                      then_do (subscript target_data) (\<lambda>td.
                      then_do (loc_last (income_stmt td) ''Total Revenue'') (\<lambda>revenue.
                      per_share_from_ev td (revenue * avg))))
           in Some \<lparr> average_metrics = am,
                     valuations = vs,
                     average_valuation =
                       (if vs \<noteq> [] then Some (np_div (np_sum (map snd vs)) (real (length vs)))
                        else None) \<rparr>))"

subsection \<open>The aggregator \<^verbatim>\<open>perform_valuation\<close> (lines 414--467)\<close>

text \<open>
  The report dictionary: its three descriptive keys, the method entries in insertion
  order, and the key \<^verbatim>\<open>Average\<close>, which may be missing.
\<close>

record report =
  ticker :: string
  current_price :: real
  company_name :: string
  methods :: "(string \<times> num) list"
  Average :: "num option"

text \<open>Lines 425--427, outside any \<^verbatim>\<open>try\<close>.\<close>

definition current_price_of :: "financial_data \<Rightarrow> py_error + real" where
  "current_price_of fd =
     (case facts (info fd) ''currentPrice'' of
        Some p \<Rightarrow> if p \<noteq> 0 then Inr p else loc_last (hist fd) ''Close''
      | None \<Rightarrow> loc_last (hist fd) ''Close'')"

text \<open>Lines 457--460.\<close>

definition mm_methods ::
  "yfinance \<Rightarrow> string \<Rightarrow> string list option \<Rightarrow> (string \<times> num) list" where
  "mm_methods yf ticker_symbol target_companies =
     (case target_companies of
        Some (t # ts) \<Rightarrow>
          (case market_multiples_valuation yf ticker_symbol target_companies of
             None \<Rightarrow> []
           | Some r \<Rightarrow>
               (case average_valuation r of
                  None \<Rightarrow> []
                | Some a \<Rightarrow> if truthy a then [(''Market Multiples'', a)] else []))
      | _ \<Rightarrow> [])"

definition perform_valuation ::
  "yfinance \<Rightarrow> string \<Rightarrow> string list option \<Rightarrow> py_error + report option" where
  "perform_valuation yf ticker_symbol target_companies =
     (case get_financial_data yf ticker_symbol of
        None \<Rightarrow> Inr None
      | Some fd \<Rightarrow>
          then_do (current_price_of fd) (\<lambda>price.
          let vals =
                (case dcf_valuation fd 0.05 0.1 0.02 5 of
                   None \<Rightarrow> [] | Some r \<Rightarrow> [(''DCF'', dcf_value_per_share r)])
              @ (case pe_valuation yf fd target_companies of
                   None \<Rightarrow> [] | Some r \<Rightarrow> [(''P/E'', pe_value_per_share r)])
              @ (case pbv_valuation yf fd target_companies of
                   None \<Rightarrow> [] | Some r \<Rightarrow> [(''P/BV'', pbv_value_per_share r)])
              @ (case ev_ebitda_valuation yf fd target_companies of
                   None \<Rightarrow> [] | Some r \<Rightarrow> [(''EV/EBITDA'', ev_ebitda_value_per_share r)])
              @ mm_methods yf ticker_symbol target_companies;
              valuation_methods = map snd vals
          in Inr (Some \<lparr> ticker = ticker_symbol,
                         current_price = price,
                         company_name = (case longName (info fd) of
                                           None \<Rightarrow> ticker_symbol | Some n \<Rightarrow> n),
                         methods = vals,
                         Average =
                           (if valuation_methods \<noteq> []
                            then Some (np_div (np_sum valuation_methods)
                                              (real (length valuation_methods)))
                            else None) \<rparr>)))"

section \<open>Reference computations and sample datasets\<close>

subsection \<open>The discounted cash flow computation as the specification words it\<close>

text \<open>
  Projected flow of year \<open>i\<close>, terminal value from the last projected flow, enterprise
  value as the sum of the discounted flows (exponents 1 to \<open>n\<close>) and of the terminal
  value discounted over \<open>n\<close> years, equity value by adding cash and subtracting debt,
  per-share value by dividing by the share count.
\<close>

definition ref_projected_flow :: "real \<Rightarrow> real \<Rightarrow> nat \<Rightarrow> real" where
  "ref_projected_flow f g i = f * (1 + g) ^ i"

definition ref_terminal_value :: "real \<Rightarrow> real \<Rightarrow> real \<Rightarrow> real \<Rightarrow> nat \<Rightarrow> real" where
  "ref_terminal_value f g dr tgr n = ref_projected_flow f g n * (1 + tgr) / (dr - tgr)"

definition ref_enterprise_value :: "real \<Rightarrow> real \<Rightarrow> real \<Rightarrow> real \<Rightarrow> nat \<Rightarrow> real" where
  "ref_enterprise_value f g dr tgr n =
     (\<Sum>i = 1..n. ref_projected_flow f g i / (1 + dr) ^ i)
     + ref_terminal_value f g dr tgr n / (1 + dr) ^ n"

definition ref_per_share ::
  "real \<Rightarrow> real \<Rightarrow> real \<Rightarrow> real \<Rightarrow> nat \<Rightarrow> real \<Rightarrow> real \<Rightarrow> real \<Rightarrow> real" where
  "ref_per_share f g dr tgr n cash debt shares =
     (ref_enterprise_value f g dr tgr n + cash - debt) / shares"

subsection \<open>Sample datasets\<close>

text \<open>The end-to-end example of the specification.\<close>

definition spec_example :: financial_data where
  "spec_example =
     \<lparr> hist = Map.empty,
       income_stmt = Map.empty,
       balance_sheet = [''Cash And Cash Equivalents'' \<mapsto> [500], ''Total Debt'' \<mapsto> [300]],
       cash_flow = [''Operating Cash Flow'' \<mapsto> [1000], ''Capital Expenditure'' \<mapsto> [-200]],
       info = \<lparr> facts = [''sharesOutstanding'' \<mapsto> 100], longName = None \<rparr> \<rparr>"

text \<open>The same company with a debt that exceeds its enterprise value and cash.\<close>

definition indebted_example :: financial_data where
  "indebted_example =
     \<lparr> hist = Map.empty,
       income_stmt = Map.empty,
       balance_sheet = [''Cash And Cash Equivalents'' \<mapsto> [500], ''Total Debt'' \<mapsto> [100000]],
       cash_flow = [''Operating Cash Flow'' \<mapsto> [1000], ''Capital Expenditure'' \<mapsto> [-200]],
       info = \<lparr> facts = [''sharesOutstanding'' \<mapsto> 100], longName = None \<rparr> \<rparr>"

text \<open>A data source on which every read fails.\<close>

definition no_market :: yfinance where
  "no_market = (\<lambda>t. \<lparr> t_history = Inl FetchError, t_income_stmt = Inl FetchError,
                       t_balance_sheet = Inl FetchError, t_cashflow = Inl FetchError,
                       t_info = Inl FetchError \<rparr>)"

text \<open>A balance sheet with the primary cash item and only the secondary debt item.\<close>

definition mixed_balance_example :: financial_data where
  "mixed_balance_example =
     \<lparr> hist = [''Close'' \<mapsto> [10]],
       income_stmt = [''EBIT'' \<mapsto> [100], ''Depreciation And Amortization'' \<mapsto> [20]],
       balance_sheet = [''Cash And Cash Equivalents'' \<mapsto> [500], ''Long Term Debt'' \<mapsto> [300]],
       cash_flow = [''Operating Cash Flow'' \<mapsto> [1000], ''Capital Expenditure'' \<mapsto> [-200]],
       info = \<lparr> facts = [''sharesOutstanding'' \<mapsto> 100], longName = None \<rparr> \<rparr>"

text \<open>What the data source answers for a symbol it does not know: empty frames, an empty
  price history and an empty profile, without raising.\<close>

definition unknown_ticker :: yfinance where
  "unknown_ticker = (\<lambda>t. \<lparr> t_history = Inr [''Close'' \<mapsto> []], t_income_stmt = Inr Map.empty,
                       t_balance_sheet = Inr Map.empty, t_cashflow = Inr Map.empty,
                       t_info = Inr \<lparr> facts = Map.empty, longName = None \<rparr> \<rparr>)"

text \<open>A company whose profile has a trailing EPS of 5 and no trailing P/E.\<close>

definition eps_five_example :: financial_data where
  "eps_five_example =
     \<lparr> hist = [''Close'' \<mapsto> [60]],
       income_stmt = Map.empty, balance_sheet = Map.empty, cash_flow = Map.empty,
       info = \<lparr> facts = [''trailingEPS'' \<mapsto> 5], longName = None \<rparr> \<rparr>"

subsection \<open>The multiple of the P/E method as the specification words it\<close>

text \<open>
  The trailing P/E of a peer, when its profile can be read and has one; the multiple is
  the mean of the strictly positive peer values when there are any, else the company's own
  trailing P/E, else the constant 15.
\<close>

definition peer_pe :: "yfinance \<Rightarrow> string \<Rightarrow> real option" where
  "peer_pe yf t = (case t_info (yf t) of Inl _ \<Rightarrow> None | Inr p \<Rightarrow> facts p ''trailingPE'')"

definition ref_pe_multiple :: "yfinance \<Rightarrow> financial_data \<Rightarrow> string list option \<Rightarrow> real" where
  "ref_pe_multiple yf fd target_companies =
     (let peers = (case target_companies of None \<Rightarrow> [] | Some ts \<Rightarrow> ts);
          usable = filter (\<lambda>v. 0 < v) (List.map_filter (peer_pe yf) peers)
      in if usable \<noteq> [] then sum_list usable / real (length usable)
         else (case facts (info fd) ''trailingPE'' of Some own \<Rightarrow> own | None \<Rightarrow> 15))"



text \<open>A ticker all of whose reads succeed and yield the parts of a given dataset.\<close>

definition serve :: "financial_data \<Rightarrow> ticker_obj" where
  "serve fd = \<lparr> t_history = Inr (hist fd), t_income_stmt = Inr (income_stmt fd),
                t_balance_sheet = Inr (balance_sheet fd), t_cashflow = Inr (cash_flow fd),
                t_info = Inr (info fd) \<rparr>"


text \<open>A company with cash flows, earnings and EBITDA but no book value, on a market that
  knows no other symbol.\<close>

definition sample_company :: financial_data where
  "sample_company =
     \<lparr> hist = [''Close'' \<mapsto> [48, 50]],
       income_stmt = [''Net Income'' \<mapsto> [200], ''EBIT'' \<mapsto> [100],
                      ''Depreciation And Amortization'' \<mapsto> [20]],
       balance_sheet = [''Cash And Cash Equivalents'' \<mapsto> [500], ''Total Debt'' \<mapsto> [300]],
       cash_flow = [''Operating Cash Flow'' \<mapsto> [1000], ''Capital Expenditure'' \<mapsto> [-200]],
       info = \<lparr> facts = [''sharesOutstanding'' \<mapsto> 100, ''currentPrice'' \<mapsto> 50],
                longName = Some ''Sample Corp'' \<rparr> \<rparr>"

definition sample_market :: yfinance where
  "sample_market = (\<lambda>t. if t = ''SUBJ'' then serve sample_company else no_market t)"

subsection \<open>The names under which the five methods enter a report\<close>

definition method_names :: "string list" where
  "method_names = [''DCF'', ''P/E'', ''P/BV'', ''EV/EBITDA'', ''Market Multiples'']"

text \<open>A company whose profile has no share count, and a market that serves it together
  with one peer.\<close>

definition no_share_count_example :: financial_data where
  "no_share_count_example =
     \<lparr> hist = [''Close'' \<mapsto> [48, 50]],
       income_stmt = [''Net Income'' \<mapsto> [100], ''EBIT'' \<mapsto> [100],
                      ''Depreciation And Amortization'' \<mapsto> [20]],
       balance_sheet = [''Cash And Cash Equivalents'' \<mapsto> [500], ''Total Debt'' \<mapsto> [300]],
       cash_flow = [''Operating Cash Flow'' \<mapsto> [1000], ''Capital Expenditure'' \<mapsto> [-200]],
       info = \<lparr> facts = Map.empty, longName = None \<rparr> \<rparr>"

definition peer_company :: financial_data where
  "peer_company =
     \<lparr> hist = [''Close'' \<mapsto> [10]],
       income_stmt = Map.empty, balance_sheet = Map.empty, cash_flow = Map.empty,
       info = \<lparr> facts = [''trailingPE'' \<mapsto> 20, ''enterpriseToEbitda'' \<mapsto> 8],
                longName = None \<rparr> \<rparr>"

definition comparables_market :: yfinance where
  "comparables_market =
     (\<lambda>t. if t = ''SUBJ'' then serve no_share_count_example
          else if t = ''PEER'' then serve peer_company
          else no_market t)"



text \<open>A company with a net income of 0 and a book value per share of 10, and a peer whose
  profile has a trailing P/E of 20 and no other multiple.\<close>

definition zero_income_company :: financial_data where
  "zero_income_company =
     \<lparr> hist = [''Close'' \<mapsto> [50]],
       income_stmt = [''Net Income'' \<mapsto> [0]],
       balance_sheet = Map.empty,
       cash_flow = Map.empty,
       info = \<lparr> facts = [''bookValue'' \<mapsto> 10, ''sharesOutstanding'' \<mapsto> 100,
                          ''currentPrice'' \<mapsto> 50],
                longName = None \<rparr> \<rparr>"

definition pe_only_peer :: financial_data where
  "pe_only_peer =
     \<lparr> hist = [''Close'' \<mapsto> [10]],
       income_stmt = Map.empty, balance_sheet = Map.empty, cash_flow = Map.empty,
       info = \<lparr> facts = [''trailingPE'' \<mapsto> 20], longName = None \<rparr> \<rparr>"

definition zero_income_market :: yfinance where
  "zero_income_market =
     (\<lambda>t. if t = ''SUBJ'' then serve zero_income_company
          else if t = ''PEER'' then serve pe_only_peer
          else no_market t)"

section \<open>Properties\<close>

subsection \<open>Auxiliary facts\<close>

lemma foldl_np_add_Fin: "foldl np_add (Fin a) (map Fin xs) = Fin (a + sum_list xs)"
  by (induction xs arbitrary: a) (simp_all add: add.assoc)

lemma np_sum_Fin: "np_sum (map Fin xs) = Fin (sum_list xs)"
  by (simp add: np_sum_def foldl_np_add_Fin)

lemma iloc_last_nonempty: "xs \<noteq> [] \<Longrightarrow> iloc_last xs = Inr (last xs)"
  by (cases xs) (simp_all add: iloc_last_def)

lemma upto_as_upt: "[1..int n] = map (\<lambda>k. int (Suc k)) [0..<n]"
proof (induction n)
  case 0
  show ?case by simp
next
  case (Suc n)
  have "[1..int (Suc n)] = [1..int n] @ [int (Suc n)]"
    using upto_rec2 [of 1 "int (Suc n)"] by simp
  with Suc show ?case by simp
qed

lemma projected_as_upt:
  "map (\<lambda>i. f * (1 + g) ^ nat i) [1..int n]
   = map (\<lambda>k. ref_projected_flow f g (Suc k)) [0..<n]"
  by (simp add: upto_as_upt ref_projected_flow_def comp_def nat_add_distrib del: upt_Suc)

lemma iloc_last_projected:
  "0 < n \<Longrightarrow>
   iloc_last (map (\<lambda>k. ref_projected_flow f g (Suc k)) [0..<n]) = Inr (ref_projected_flow f g n)"
  by (cases n) (simp_all add: iloc_last_nonempty)

lemma present_values_Fin:
  assumes "1 + dr \<noteq> 0"
  shows "map (\<lambda>(i, cf). np_div (Fin cf) ((1 + dr) ^ (i + 1)))
           (enumerate 0 (map (\<lambda>k. ref_projected_flow f g (Suc k)) [0..<n]))
         = map Fin (map (\<lambda>k. ref_projected_flow f g (Suc k) / (1 + dr) ^ Suc k) [0..<n])"
  using assms by (simp add: enumerate_map_upt comp_def del: upt_Suc)

lemma sum_list_shift:
  "sum_list (map (\<lambda>k. h (Suc k)) [0..<n]) = (\<Sum>i = 1..n. (h i :: real))"
  by (induction n) simp_all

text \<open>What \<open>dcf_valuation\<close> returns when the line items resolve, at least one year is
  projected and neither denominator is zero.\<close>

lemma dcf_closed_form:
  assumes f: "free_cash_flow (cash_flow fd) = Inr f"
    and cd: "cash_and_debt (balance_sheet fd) = Inr (c, d)"
    and n: "1 \<le> years"
    and den: "dr \<noteq> tgr"
    and disc: "1 + dr \<noteq> 0"
  shows "dcf_valuation fd g dr tgr years =
     Some \<lparr> enterprise_value = Fin (ref_enterprise_value f g dr tgr (nat years)),
            equity_value = Fin (ref_enterprise_value f g dr tgr (nat years) + c - d),
            dcf_value_per_share =
              np_div (Fin (ref_enterprise_value f g dr tgr (nat years) + c - d))
                     (shares_outstanding (info fd)),
            projected_cash_flows = map (\<lambda>k. ref_projected_flow f g (Suc k)) [0..<nat years],
            present_values =
              map (\<lambda>k. Fin (ref_projected_flow f g (Suc k) / (1 + dr) ^ Suc k)) [0..<nat years],
            terminal_value = Fin (ref_terminal_value f g dr tgr (nat years)) \<rparr>"
proof -
  obtain n where years: "years = int n" and pos: "0 < n"
    using n by (cases years) simp_all
  let ?P = "map (\<lambda>k. ref_projected_flow f g (Suc k)) [0..<n]"
  let ?S = "\<Sum>i = 1..n. ref_projected_flow f g i / (1 + dr) ^ i"
  let ?TV = "ref_terminal_value f g dr tgr n"
  have tv: "np_div (Fin (ref_projected_flow f g n * (1 + tgr))) (dr - tgr) = Fin ?TV"
    using den by (simp add: ref_terminal_value_def)
  have pvl: "map (\<lambda>(i, cf). np_div (Fin cf) ((1 + dr) ^ (i + 1))) (enumerate 0 ?P)
       = map (\<lambda>k. Fin (ref_projected_flow f g (Suc k) / (1 + dr) ^ Suc k)) [0..<n]"
    using present_values_Fin [OF disc, of f g n] by (simp add: comp_def del: upt_Suc)
  have pvs: "np_sum (map (\<lambda>k. Fin (ref_projected_flow f g (Suc k) / (1 + dr) ^ Suc k)) [0..<n])
       = Fin ?S"
  proof -
    have "np_sum (map Fin (map (\<lambda>k. ref_projected_flow f g (Suc k) / (1 + dr) ^ Suc k) [0..<n]))
        = Fin ?S"
      unfolding np_sum_Fin
      by (rule arg_cong [where f = Fin])
         (rule sum_list_shift [of "\<lambda>i. ref_projected_flow f g i / (1 + dr) ^ i"])
    then show ?thesis by (simp add: comp_def del: upt_Suc)
  qed
  have pvt: "np_div (Fin ?TV) ((1 + dr) ^ n) = Fin (?TV / (1 + dr) ^ n)"
    using disc by simp
  show ?thesis
    unfolding dcf_valuation_def years f projected_as_upt
    by (simp only: then_do_def catch_def sum.case Let_def iloc_last_projected [OF pos]
        tv pvl pvs pvt cd prod.case nat_int np_add.simps np_sub.simps
        ref_enterprise_value_def)
qed

subsection \<open>Discounted cash flow against the reference computation\<close>

text \<open>
  Claim C4. Whenever free cash flow \<open>f\<close>, cash, debt and the share count resolve, the
  discount rate exceeds the terminal growth rate, at least one year is projected and the
  divisors of the reference computation are not zero (the share count, and \<open>1 + discountRate\<close>),
  \<open>dcf_valuation\<close> returns an estimate whose projected flows, terminal value, enterprise
  value, equity value and per-share value are those of the reference computation.
  The witness is the end-to-end example of the specification: operating cash flow 1000,
  capital expenditure -200 (free cash flow 800), default parameters, cash 500, debt 300,
  100 shares.
\<close>

theorem dcf_matches_reference:
  assumes "free_cash_flow (cash_flow fd) = Inr f"
    and "cash_and_debt (balance_sheet fd) = Inr (cash, debt)"
    and "shares_outstanding (info fd) = shares"
    and "shares \<noteq> 0"
    and "terminal_growth_rate < discount_rate"
    and "1 + discount_rate \<noteq> 0"
    and "1 \<le> years"
  shows "\<exists>r. dcf_valuation fd growth_rate discount_rate terminal_growth_rate years = Some r
           \<and> projected_cash_flows r = map (ref_projected_flow f growth_rate) [1..<Suc (nat years)]
           \<and> terminal_value r
               = Fin (ref_terminal_value f growth_rate discount_rate terminal_growth_rate (nat years))
           \<and> enterprise_value r
               = Fin (ref_enterprise_value f growth_rate discount_rate terminal_growth_rate (nat years))
           \<and> equity_value r
               = Fin (ref_enterprise_value f growth_rate discount_rate terminal_growth_rate (nat years)
                      + cash - debt)
           \<and> dcf_value_per_share r
               = Fin (ref_per_share f growth_rate discount_rate terminal_growth_rate (nat years)
                        cash debt shares)"
proof -
  have den: "discount_rate \<noteq> terminal_growth_rate"
    using assms(5) by simp
  have shift: "map (\<lambda>k. ref_projected_flow f growth_rate (Suc k)) [0..<nat years]
      = map (ref_projected_flow f growth_rate) [1..<Suc (nat years)]"
    by (simp add: map_Suc_upt [symmetric] del: upt_Suc)
  show ?thesis
    unfolding dcf_closed_form [OF assms(1) assms(2) assms(7) den assms(6)]
    using assms(3) assms(4) shift by (simp add: ref_per_share_def del: upt_Suc)
qed

theorem dcf_matches_reference_witness:
  "free_cash_flow (cash_flow spec_example) = Inr 800
   \<and> cash_and_debt (balance_sheet spec_example) = Inr (500, 300)
   \<and> shares_outstanding (info spec_example) = 100
   \<and> map_option projected_cash_flows (dcf_valuation spec_example 0.05 0.1 0.02 5)
       = Some [840, 882, 926.1, 972.405, 1021.02525]
   \<and> map_option terminal_value (dcf_valuation spec_example 0.05 0.1 0.02 5)
       = Some (Fin (208289151 / 16000))
   \<and> map_option enterprise_value (dcf_valuation spec_example 0.05 0.1 0.02 5)
       = Some (Fin (677567625 / 58564))
   \<and> map_option equity_value (dcf_valuation spec_example 0.05 0.1 0.02 5)
       = Some (Fin (689280425 / 58564))
   \<and> map_option dcf_value_per_share (dcf_valuation spec_example 0.05 0.1 0.02 5)
       = Some (Fin (27571217 / 234256))"
proof -
  have fcf: "free_cash_flow (cash_flow spec_example) = Inr 800"
    by (simp add: spec_example_def free_cash_flow_def loc_last_def loc_def then_do_def
        orelse_def iloc_last_def)
  have cd: "cash_and_debt (balance_sheet spec_example) = Inr (500, 300)"
    by (simp add: spec_example_def cash_and_debt_def loc_last_def loc_def then_do_def
        orelse_def iloc_last_def)
  have sh: "shares_outstanding (info spec_example) = 100"
    by (simp add: spec_example_def shares_outstanding_def)
  obtain r where r: "dcf_valuation spec_example 0.05 0.1 0.02 5 = Some r"
    and p: "projected_cash_flows r = map (ref_projected_flow 800 0.05) [1..<Suc (nat 5)]"
    and t: "terminal_value r = Fin (ref_terminal_value 800 0.05 0.1 0.02 (nat 5))"
    and e: "enterprise_value r = Fin (ref_enterprise_value 800 0.05 0.1 0.02 (nat 5))"
    and q: "equity_value r = Fin (ref_enterprise_value 800 0.05 0.1 0.02 (nat 5) + 500 - 300)"
    and v: "dcf_value_per_share r = Fin (ref_per_share 800 0.05 0.1 0.02 (nat 5) 500 300 100)"
    using dcf_matches_reference [of spec_example 800 500 300 100 "0.02" "0.1" 5 "0.05"] fcf cd sh
    by auto
  have p': "projected_cash_flows r = [840, 882, 926.1, 972.405, 1021.02525]"
    unfolding p by (simp add: ref_projected_flow_def eval_nat_numeral)
  have t': "terminal_value r = Fin (208289151 / 16000)"
    unfolding t by (simp add: ref_terminal_value_def ref_projected_flow_def eval_nat_numeral)
  have e': "enterprise_value r = Fin (677567625 / 58564)"
    unfolding e
    by (simp add: ref_enterprise_value_def ref_terminal_value_def ref_projected_flow_def
        eval_nat_numeral)
  have q': "equity_value r = Fin (689280425 / 58564)"
    unfolding q
    by (simp add: ref_enterprise_value_def ref_terminal_value_def ref_projected_flow_def
        eval_nat_numeral)
  have v': "dcf_value_per_share r = Fin (27571217 / 234256)"
    unfolding v
    by (simp add: ref_per_share_def ref_enterprise_value_def ref_terminal_value_def
        ref_projected_flow_def eval_nat_numeral)
  show ?thesis
    unfolding r by (simp only: fcf cd sh option.map p' t' e' q' v' simp_thms)
qed

lemmas eval_defs = free_cash_flow_def cash_and_debt_def loc_last_def loc_def then_do_def
  orelse_def iloc_last_def catch_def shares_outstanding_def np_sum_def

subsection \<open>The discount-rate constraint\<close>

text \<open>
  Claim C3 (as stated, refuted). The claim says that every parameter pair with
  \<open>discountRate \<le> terminalGrowthRate\<close> makes the method report "unavailable". On the
  example of the specification with discount rate 0.01, terminal growth rate 0.02 and one
  projected year, \<open>dcf_valuation\<close> returns an estimate: terminal value -85680, per-share
  value -838.
\<close>

theorem dcf_rate_constraint_counterexample:
  "(0.01 :: real) \<le> 0.02
   \<and> map_option terminal_value (dcf_valuation spec_example 0.05 0.01 0.02 1) = Some (Fin (- 85680))
   \<and> map_option dcf_value_per_share (dcf_valuation spec_example 0.05 0.01 0.02 1) = Some (Fin (- 838))"
  by (simp add: dcf_valuation_def spec_example_def eval_defs Let_def)

text \<open>
  Claim C3 (amended). The method has no check of the rates. Whenever free cash flow, cash
  and debt resolve, at least one year is projected, the share count is not zero and
  \<open>discountRate < terminalGrowthRate\<close> (with \<open>1 + discountRate\<close> not zero), it returns the
  estimate of the same formula, whose terminal value is divided by the negative
  \<open>discountRate - terminalGrowthRate\<close>.
\<close>

theorem dcf_below_terminal_growth:
  assumes "free_cash_flow (cash_flow fd) = Inr f"
    and "cash_and_debt (balance_sheet fd) = Inr (cash, debt)"
    and "shares_outstanding (info fd) = shares"
    and "shares \<noteq> 0"
    and "discount_rate < terminal_growth_rate"
    and "1 + discount_rate \<noteq> 0"
    and "1 \<le> years"
  shows "\<exists>r. dcf_valuation fd growth_rate discount_rate terminal_growth_rate years = Some r
           \<and> terminal_value r
               = Fin (ref_projected_flow f growth_rate (nat years) * (1 + terminal_growth_rate)
                      / (discount_rate - terminal_growth_rate))
           \<and> dcf_value_per_share r
               = Fin (ref_per_share f growth_rate discount_rate terminal_growth_rate (nat years)
                        cash debt shares)"
proof -
  have den: "discount_rate \<noteq> terminal_growth_rate"
    using assms(5) by simp
  show ?thesis
    unfolding dcf_closed_form [OF assms(1) assms(2) assms(7) den assms(6)]
    using assms(3) assms(4) by (simp add: ref_per_share_def ref_terminal_value_def)
qed

theorem dcf_below_terminal_growth_witness:
  "free_cash_flow (cash_flow spec_example) = Inr 800
   \<and> cash_and_debt (balance_sheet spec_example) = Inr (500, 300)
   \<and> shares_outstanding (info spec_example) = 100
   \<and> (0.01 :: real) < 0.02
   \<and> map_option terminal_value (dcf_valuation spec_example 0.05 0.01 0.02 1)
       = Some (Fin (- 85680))
   \<and> map_option dcf_value_per_share (dcf_valuation spec_example 0.05 0.01 0.02 1)
       = Some (Fin (- 838))"
proof -
  have fcf: "free_cash_flow (cash_flow spec_example) = Inr 800"
    by (simp add: spec_example_def free_cash_flow_def loc_last_def loc_def then_do_def
        orelse_def iloc_last_def)
  have cd: "cash_and_debt (balance_sheet spec_example) = Inr (500, 300)"
    by (simp add: spec_example_def cash_and_debt_def loc_last_def loc_def then_do_def
        orelse_def iloc_last_def)
  have sh: "shares_outstanding (info spec_example) = 100"
    by (simp add: spec_example_def shares_outstanding_def)
  obtain r where r: "dcf_valuation spec_example 0.05 0.01 0.02 1 = Some r"
    and t: "terminal_value r = Fin (ref_projected_flow 800 0.05 (nat 1) * (1 + 0.02) / (0.01 - 0.02))"
    and v: "dcf_value_per_share r = Fin (ref_per_share 800 0.05 0.01 0.02 (nat 1) 500 300 100)"
    using dcf_below_terminal_growth [of spec_example 800 500 300 100 "0.01" "0.02" 1 "0.05"]
      fcf cd sh
    by auto
  have t': "terminal_value r = Fin (- 85680)"
    unfolding t by (simp add: ref_projected_flow_def)
  have v': "dcf_value_per_share r = Fin (- 838)"
    unfolding v
    by (simp add: ref_per_share_def ref_enterprise_value_def ref_terminal_value_def
        ref_projected_flow_def)
  show ?thesis
    unfolding r by (simp add: fcf cd sh t' v')
qed

subsection \<open>Sign of the discounted cash flow estimate\<close>

lemma ref_enterprise_value_pos:
  assumes "0 < f" "- 1 < g" "- 1 < tgr" "tgr < dr" "0 < n"
  shows "0 < ref_enterprise_value f g dr tgr n"
proof -
  have d: "0 < 1 + dr" and g: "0 < 1 + g" and t: "0 < 1 + tgr" and den: "0 < dr - tgr"
    using assms by simp_all
  have flow: "0 < ref_projected_flow f g i" for i
    using assms(1) g by (simp add: ref_projected_flow_def)
  have pv: "0 < ref_projected_flow f g i / (1 + dr) ^ i" for i
    using flow d by simp
  have "0 \<le> (\<Sum>i = 1..n. ref_projected_flow f g i / (1 + dr) ^ i)"
    by (rule sum_nonneg) (use pv in \<open>simp add: less_imp_le\<close>)
  moreover have "0 < ref_terminal_value f g dr tgr n / (1 + dr) ^ n"
    using flow [of n] t den d by (simp add: ref_terminal_value_def)
  ultimately show ?thesis by (simp add: ref_enterprise_value_def)
qed

text \<open>
  Claim C7 (as stated, refuted). With free cash flow 800, the default parameters and a total
  debt of 100000 against cash of 500, the per-share value is negative.
\<close>

theorem dcf_positive_counterexample:
  "free_cash_flow (cash_flow indebted_example) = Inr 800
   \<and> (0.02 :: real) < 0.1
   \<and> map_option dcf_value_per_share (dcf_valuation indebted_example 0.05 0.1 0.02 5)
       = Some (Fin (- 205982015 / 234256))"
  by (simp add: dcf_valuation_def indebted_example_def eval_defs Let_def upto.simps enumerate_eq_zip eval_nat_numeral)

text \<open>
  Claim C7 (amended). Let the free cash flow resolve to a number \<open>f > 0\<close>, let cash and
  debt resolve to numbers, let the share count in use be positive, the growth rate and the
  terminal growth rate be above -1, the discount rate be above the terminal growth rate,
  and at least one year be projected. Then the method returns the estimate of the reference
  computation; the enterprise value of the reference computation is strictly positive; its
  per-share value is strictly positive exactly when debt is less than enterprise value plus
  cash, in particular when debt does not exceed cash. The values are those of exact
  arithmetic on the numbers read; nothing is said about missing (NaN) cells or overflow.
\<close>

theorem dcf_positive_with_net_cash:
  assumes "free_cash_flow (cash_flow fd) = Inr f"
    and "0 < f"
    and "cash_and_debt (balance_sheet fd) = Inr (cash, debt)"
    and "shares_outstanding (info fd) = shares"
    and "0 < shares"
    and "- 1 < growth_rate"
    and "- 1 < terminal_growth_rate"
    and "terminal_growth_rate < discount_rate"
    and "1 \<le> years"
  shows "\<exists>r. dcf_valuation fd growth_rate discount_rate terminal_growth_rate years = Some r
           \<and> enterprise_value r
               = Fin (ref_enterprise_value f growth_rate discount_rate terminal_growth_rate
                        (nat years))
           \<and> 0 < ref_enterprise_value f growth_rate discount_rate terminal_growth_rate (nat years)
           \<and> dcf_value_per_share r
               = Fin (ref_per_share f growth_rate discount_rate terminal_growth_rate (nat years)
                        cash debt shares)
           \<and> (0 < ref_per_share f growth_rate discount_rate terminal_growth_rate (nat years)
                     cash debt shares
                \<longleftrightarrow> debt < ref_enterprise_value f growth_rate discount_rate
                             terminal_growth_rate (nat years) + cash)
           \<and> (debt \<le> cash
                \<longrightarrow> 0 < ref_per_share f growth_rate discount_rate terminal_growth_rate (nat years)
                          cash debt shares)"
proof -
  let ?ev = "ref_enterprise_value f growth_rate discount_rate terminal_growth_rate (nat years)"
  have den: "discount_rate \<noteq> terminal_growth_rate" and disc: "1 + discount_rate \<noteq> 0"
    using assms(7) assms(8) by simp_all
  have pos: "0 < ?ev"
    using assms(2) assms(6) assms(7) assms(8) assms(9)
    by (intro ref_enterprise_value_pos) simp_all
  have sign: "0 < (?ev + cash - debt) / shares \<longleftrightarrow> debt < ?ev + cash"
    using assms(5) by (simp add: zero_less_divide_iff)
  have net: "debt \<le> cash \<longrightarrow> 0 < (?ev + cash - debt) / shares"
    using sign pos by auto
  show ?thesis
    unfolding dcf_closed_form [OF assms(1) assms(3) assms(9) den disc]
    using assms(4) assms(5) pos sign net by (simp add: ref_per_share_def)
qed

theorem dcf_positive_with_net_cash_witness:
  "free_cash_flow (cash_flow spec_example) = Inr 800
   \<and> (0 :: real) < 800
   \<and> cash_and_debt (balance_sheet spec_example) = Inr (500, 300)
   \<and> (300 :: real) \<le> 500
   \<and> shares_outstanding (info spec_example) = 100
   \<and> map_option enterprise_value (dcf_valuation spec_example 0.05 0.1 0.02 5)
       = Some (Fin (677567625 / 58564))
   \<and> map_option dcf_value_per_share (dcf_valuation spec_example 0.05 0.1 0.02 5)
       = Some (Fin (27571217 / 234256))
   \<and> (0 :: real) < 27571217 / 234256"
proof -
  have fcf: "free_cash_flow (cash_flow spec_example) = Inr 800"
    by (simp add: spec_example_def eval_defs)
  have cd: "cash_and_debt (balance_sheet spec_example) = Inr (500, 300)"
    by (simp add: spec_example_def eval_defs)
  have sh: "shares_outstanding (info spec_example) = 100"
    by (simp add: spec_example_def shares_outstanding_def)
  obtain r where r: "dcf_valuation spec_example 0.05 0.1 0.02 5 = Some r"
    and e: "enterprise_value r = Fin (ref_enterprise_value 800 0.05 0.1 0.02 (nat 5))"
    and v: "dcf_value_per_share r = Fin (ref_per_share 800 0.05 0.1 0.02 (nat 5) 500 300 100)"
    and vp: "0 < ref_per_share 800 0.05 0.1 0.02 (nat 5) 500 300 100"
    using dcf_positive_with_net_cash [of spec_example 800 500 300 100 "0.05" "0.02" "0.1" 5]
      fcf cd sh
    by auto
  have ev: "ref_enterprise_value 800 0.05 0.1 0.02 (nat 5) = 677567625 / 58564"
    by (simp add: ref_enterprise_value_def ref_terminal_value_def ref_projected_flow_def
        eval_nat_numeral)
  have ps: "ref_per_share 800 0.05 0.1 0.02 (nat 5) 500 300 100 = 27571217 / 234256"
    by (simp add: ref_per_share_def ref_enterprise_value_def ref_terminal_value_def
        ref_projected_flow_def eval_nat_numeral)
  have e': "enterprise_value r = Fin (677567625 / 58564)"
    unfolding e by (simp only: ev)
  have v': "dcf_value_per_share r = Fin (27571217 / 234256)"
    unfolding v by (simp only: ps)
  have vp': "(0 :: real) < 27571217 / 234256"
    using vp by (simp only: ps)
  show ?thesis
    unfolding r using fcf cd sh e' v' vp' by simp
qed

subsection \<open>Resolution of cash and debt\<close>

text \<open>
  Claim C6 (the code departs from it). The balance sheet holds \<open>Cash And Cash Equivalents\<close>
  = 500 and \<open>Long Term Debt\<close> = 300 but no \<open>Total Debt\<close>. The claim makes cash resolve
  to 500; the shared \<^verbatim>\<open>try\<close> block discards it once the read of \<open>Total Debt\<close> fails, and
  cash resolves to 0, so the EV/EBITDA equity value is 1200 + 0 - 300 = 900 instead of
  1400. Symmetrically, a present \<open>Total Debt\<close> is discarded when
  \<open>Cash And Cash Equivalents\<close> is missing.
\<close>

theorem cash_debt_coupled:
  "balance_sheet mixed_balance_example ''Cash And Cash Equivalents'' = Some [500]
   \<and> cash_and_debt (balance_sheet mixed_balance_example) = Inr (0, 300)
   \<and> map_option ev_equity_value (ev_ebitda_valuation no_market mixed_balance_example None)
       = Some 900
   \<and> cash_and_debt [''Cash And Short Term Investments'' \<mapsto> [500], ''Total Debt'' \<mapsto> [300]]
       = Inr (500, 0)"
  by (simp add: mixed_balance_example_def ev_ebitda_valuation_def ebitda_of_def
      average_multiple_def get_default_def eval_defs Let_def)

subsection \<open>Exceptions that leave the aggregator\<close>

text \<open>
  Claim C2 (the code departs from it). For a symbol the data source does not know, the
  fetch succeeds with empty frames, the profile has no current price, and reading the last
  close of the empty price history raises IndexError outside any \<^verbatim>\<open>try\<close> block: the
  exception reaches the caller of \<open>perform_valuation\<close>.
\<close>

theorem perform_valuation_raises:
  "get_financial_data unknown_ticker ''XXXX'' \<noteq> None
   \<and> perform_valuation unknown_ticker ''XXXX'' None = Inl IndexError"
  by (simp add: perform_valuation_def get_financial_data_def unknown_ticker_def
      current_price_of_def eval_defs)

text \<open>The determination of the current price is the only place from which an exception
  leaves \<open>perform_valuation\<close>; no failure inside a method does.\<close>

lemma perform_valuation_raises_iff:
  "perform_valuation yf t tc = Inl e \<longleftrightarrow>
     (\<exists>fd. get_financial_data yf t = Some fd \<and> current_price_of fd = Inl e)"
  by (auto simp: perform_valuation_def then_do_def Let_def split: option.splits sum.splits)

subsection \<open>The multiple of the P/E method\<close>

lemma peer_ratios_filter:
  "peer_ratios yf ''trailingPE'' ts = filter (\<lambda>v. 0 < v) (List.map_filter (peer_pe yf) ts)"
  by (induction ts) (auto simp: peer_pe_def List.map_filter_simps split: sum.splits option.splits)

text \<open>
  Claim C8. The P/E method returns a result exactly when earnings per share resolve; its
  multiple is then the mean of the peers' strictly positive trailing P/E values when peers
  are given and at least one such value exists, else the company's own trailing P/E, else
  15; the per-share value is earnings per share times that multiple. The example: no peers,
  trailing EPS 5, no trailing P/E, hence multiple 15 and per-share value 75.
\<close>

theorem pe_multiple_fallback:
  "pe_valuation yf fd target_companies =
     (case earnings_per_share fd of
        Inl _ \<Rightarrow> None
      | Inr e \<Rightarrow> Some \<lparr> eps = e,
                        average_pe = ref_pe_multiple yf fd target_companies,
                        pe_value_per_share = np_mul e (ref_pe_multiple yf fd target_companies) \<rparr>)"
proof -
  have "average_multiple yf fd ''trailingPE'' 15 target_companies
        = ref_pe_multiple yf fd target_companies"
  proof (cases target_companies)
    case None
    then show ?thesis
      by (simp add: average_multiple_def ref_pe_multiple_def get_default_def)
  next
    case (Some ts)
    show ?thesis
    proof (cases ts)
      case Nil
      with Some show ?thesis
        by (simp add: average_multiple_def ref_pe_multiple_def get_default_def)
    next
      case (Cons t ts')
      with Some show ?thesis
        by (simp add: average_multiple_def ref_pe_multiple_def get_default_def
            peer_ratios_filter Let_def del: peer_ratios.simps)
    qed
  qed
  then show ?thesis
    by (simp add: pe_valuation_def then_do_def catch_def Let_def split: sum.splits)
qed

theorem pe_multiple_fallback_witness:
  "facts (info eps_five_example) ''trailingEPS'' = Some 5
   \<and> facts (info eps_five_example) ''trailingPE'' = None
   \<and> map_option average_pe (pe_valuation no_market eps_five_example None) = Some 15
   \<and> map_option pe_value_per_share (pe_valuation no_market eps_five_example None) = Some (Fin 75)"
  unfolding pe_multiple_fallback
  by (simp add: eps_five_example_def earnings_per_share_def ref_pe_multiple_def
      List.map_filter_simps)

subsection \<open>Comparable companies without usable peers\<close>

lemma get_financial_data_serve: "yf t = serve fd \<Longrightarrow> get_financial_data yf t = Some fd"
  by (simp add: get_financial_data_def serve_def then_do_def catch_def)

lemma comparable_data_none:
  "\<forall>p \<in> set ps. get_financial_data yf p = None \<Longrightarrow>
   foldl (\<lambda>acc t. case get_financial_data yf t of None \<Rightarrow> acc | Some d \<Rightarrow> dict_set acc t d) acc ps
   = acc"
  by (induction ps arbitrary: acc) simp_all

lemma mm_without_peers:
  assumes "\<forall>p \<in> set ps. get_financial_data yf p = None"
  shows "market_multiples_valuation yf t (Some ps)
         = Some \<lparr> average_metrics = [], valuations = [], average_valuation = None \<rparr>"
  using comparable_data_none [OF assms, of "[]"]
  by (simp add: market_multiples_valuation_def comparable_data_def metric_average_def
      mm_entry_def Let_def)

lemma mm_methods_without_peers:
  assumes "\<forall>p \<in> set ps. get_financial_data yf p = None"
  shows "mm_methods yf t (Some ps) = []"
proof (cases ps)
  case Nil
  then show ?thesis by (simp add: mm_methods_def)
next
  case (Cons p ps')
  have "mm_methods yf t (Some ps) = (case market_multiples_valuation yf t (Some ps) of
          None \<Rightarrow> []
        | Some r \<Rightarrow> (case average_valuation r of
                       None \<Rightarrow> []
                     | Some a \<Rightarrow> if truthy a then [(''Market Multiples'', a)] else []))"
    unfolding Cons by (simp add: mm_methods_def)
  then show ?thesis
    by (simp add: mm_without_peers [OF assms])
qed

text \<open>
  Claim C9. When the peer list is empty or the data of every peer fails to be fetched, the
  comparable-companies method computes no per-multiple value and its average valuation is
  \<^verbatim>\<open>None\<close> (no default constant enters), and a report of \<open>perform_valuation\<close> has no
  \<open>Market Multiples\<close> entry.
\<close>

theorem comparables_unavailable_without_peers:
  assumes "\<forall>p \<in> set ps. get_financial_data yf p = None"
  shows "(\<exists>r. market_multiples_valuation yf t (Some ps) = Some r
             \<and> valuations r = [] \<and> average_valuation r = None)
         \<and> (\<forall>rep. perform_valuation yf t (Some ps) = Inr (Some rep)
               \<longrightarrow> map_of (methods rep) ''Market Multiples'' = None)"
proof -
  have "map_of (methods rep) ''Market Multiples'' = None"
    if "perform_valuation yf t (Some ps) = Inr (Some rep)" for rep
    using that
    by (auto simp: perform_valuation_def then_do_def Let_def mm_methods_without_peers [OF assms]
        split: option.splits sum.splits)
  then show ?thesis
    by (simp add: mm_without_peers [OF assms])
qed

theorem comparables_unavailable_without_peers_witness:
  "get_financial_data sample_market ''GONE'' = None
   \<and> map_option average_valuation (market_multiples_valuation sample_market ''SUBJ'' (Some [''GONE'']))
       = Some None
   \<and> (\<exists>rep. perform_valuation sample_market ''SUBJ'' (Some [''GONE'']) = Inr (Some rep)
         \<and> map_of (methods rep) ''Market Multiples'' = None)"
proof -
  have gone: "\<forall>p \<in> set [''GONE'']. get_financial_data sample_market p = None"
    by (simp add: get_financial_data_def sample_market_def no_market_def then_do_def catch_def)
  have subj: "get_financial_data sample_market ''SUBJ'' = Some sample_company"
    by (rule get_financial_data_serve) (simp add: sample_market_def)
  have price: "current_price_of sample_company = Inr 50"
    by (simp add: current_price_of_def sample_company_def)
  obtain rep where rep: "perform_valuation sample_market ''SUBJ'' (Some [''GONE'']) = Inr (Some rep)"
    by (simp add: perform_valuation_def subj price then_do_def Let_def)
  from comparables_unavailable_without_peers [OF gone, of "''SUBJ''"] rep gone
  show ?thesis by auto
qed

subsection \<open>Falsy profile fields\<close>





subsection \<open>The average of a report\<close>

text \<open>
  What every report holds: the entry of each of DCF, P/E, P/BV and EV/EBITDA whenever that
  method returns a result, the entry of the comparable companies when their average
  valuation passes the truthiness test of line 459, and, when there is an entry, the sum of
  the entries' values divided by their number.
\<close>

lemma perform_valuation_report:
  assumes "get_financial_data yf t = Some fd"
    and "perform_valuation yf t tc = Inr (Some rep)"
  shows "methods rep =
           (case dcf_valuation fd 0.05 0.1 0.02 5 of
              None \<Rightarrow> [] | Some r \<Rightarrow> [(''DCF'', dcf_value_per_share r)])
         @ (case pe_valuation yf fd tc of
              None \<Rightarrow> [] | Some r \<Rightarrow> [(''P/E'', pe_value_per_share r)])
         @ (case pbv_valuation yf fd tc of
              None \<Rightarrow> [] | Some r \<Rightarrow> [(''P/BV'', pbv_value_per_share r)])
         @ (case ev_ebitda_valuation yf fd tc of
              None \<Rightarrow> [] | Some r \<Rightarrow> [(''EV/EBITDA'', ev_ebitda_value_per_share r)])
         @ mm_methods yf t tc"
    and "Average rep =
           (if methods rep = [] then None
            else Some (np_div (np_sum (map snd (methods rep))) (real (length (methods rep)))))"
  using assms
  by (auto simp: perform_valuation_def then_do_def Let_def split: sum.splits)

lemma mm_methods_cases:
  "mm_methods yf t tc = [] \<or> (\<exists>a. mm_methods yf t tc = [(''Market Multiples'', a)])"
  by (auto simp: mm_methods_def split: option.splits list.splits)

lemma mm_methods_entry:
  "mm_methods yf t tc = [(''Market Multiples'', a)] \<longleftrightarrow>
     (tc \<noteq> None \<and> tc \<noteq> Some []
      \<and> (\<exists>r. market_multiples_valuation yf t tc = Some r
             \<and> average_valuation r = Some a \<and> truthy a))"
  by (auto simp: mm_methods_def split: option.splits list.splits)

lemma report_parts:
  assumes "get_financial_data yf t = Some fd"
    and "perform_valuation yf t tc = Inr (Some rep)"
  shows "map_of (methods rep) ''DCF''
           = map_option dcf_value_per_share (dcf_valuation fd 0.05 0.1 0.02 5)"
    and "map_of (methods rep) ''P/E''
           = map_option pe_value_per_share (pe_valuation yf fd tc)"
    and "map_of (methods rep) ''P/BV''
           = map_option pbv_value_per_share (pbv_valuation yf fd tc)"
    and "map_of (methods rep) ''EV/EBITDA''
           = map_option ev_ebitda_value_per_share (ev_ebitda_valuation yf fd tc)"
    and "map_of (methods rep) ''Market Multiples'' = Some a \<longleftrightarrow>
           (tc \<noteq> None \<and> tc \<noteq> Some []
            \<and> (\<exists>r. market_multiples_valuation yf t tc = Some r
                   \<and> average_valuation r = Some a \<and> truthy a))"
    and "distinct (map fst (methods rep)) \<and> set (map fst (methods rep)) \<subseteq> set method_names"
    and "Average rep = None \<longleftrightarrow> methods rep = []"
    and "methods rep \<noteq> [] \<Longrightarrow>
           Average rep
             = Some (np_div (np_sum (map snd (methods rep))) (real (length (methods rep))))"
    and "methods rep \<noteq> [] \<Longrightarrow> map snd (methods rep) = map Fin xs \<Longrightarrow>
           Average rep = Some (Fin (sum_list xs / real (length xs)))"
proof -
  note rep = perform_valuation_report [OF assms]
  from mm_methods_cases [of yf t tc]
  show "map_of (methods rep) ''DCF''
           = map_option dcf_value_per_share (dcf_valuation fd 0.05 0.1 0.02 5)"
    unfolding rep(1) by (auto split: option.splits)
  from mm_methods_cases [of yf t tc]
  show "map_of (methods rep) ''P/E''
           = map_option pe_value_per_share (pe_valuation yf fd tc)"
    unfolding rep(1) by (auto split: option.splits)
  from mm_methods_cases [of yf t tc]
  show "map_of (methods rep) ''P/BV''
           = map_option pbv_value_per_share (pbv_valuation yf fd tc)"
    unfolding rep(1) by (auto split: option.splits)
  from mm_methods_cases [of yf t tc]
  show "map_of (methods rep) ''EV/EBITDA''
           = map_option ev_ebitda_value_per_share (ev_ebitda_valuation yf fd tc)"
    unfolding rep(1) by (auto split: option.splits)
  have "map_of (methods rep) ''Market Multiples'' = Some a \<longleftrightarrow>
          mm_methods yf t tc = [(''Market Multiples'', a)]"
    using mm_methods_cases [of yf t tc]
    unfolding rep(1) by (auto split: option.splits)
  then show "map_of (methods rep) ''Market Multiples'' = Some a \<longleftrightarrow>
           (tc \<noteq> None \<and> tc \<noteq> Some []
            \<and> (\<exists>r. market_multiples_valuation yf t tc = Some r
                   \<and> average_valuation r = Some a \<and> truthy a))"
    by (simp only: mm_methods_entry)
  from mm_methods_cases [of yf t tc]
  show "distinct (map fst (methods rep)) \<and> set (map fst (methods rep)) \<subseteq> set method_names"
    unfolding rep(1) by (auto simp: method_names_def split: option.splits)
  show "Average rep = None \<longleftrightarrow> methods rep = []"
    by (simp add: rep(2))
  show "Average rep
             = Some (np_div (np_sum (map snd (methods rep))) (real (length (methods rep))))"
    if "methods rep \<noteq> []"
    using that by (simp add: rep(2))
  show "Average rep = Some (Fin (sum_list xs / real (length xs)))"
    if ne: "methods rep \<noteq> []" and fin: "map snd (methods rep) = map Fin xs"
  proof -
    have len: "length (methods rep) = length xs"
      using arg_cong [OF fin, of length] by simp
    with ne have "real (length xs) \<noteq> 0" by auto
    then show ?thesis
      using ne by (simp add: rep(2) fin np_sum_Fin len)
  qed
qed

text \<open>
  Claim C5 (the code departs from it). The company has a net income of 0, a book value per
  share of 10, no cash flow statement and no EBIT; its one peer has a trailing P/E of 20.
  Three methods succeed: P/E with 0 * 20 = 0, P/BV with 10 * 2 = 20, and comparable companies
  with the single implied value 0 * 20 = 0, so an average valuation of 0. The report holds
  the P/E value although it is 0, but line 459 tests the truthiness of the comparable
  companies' average and leaves it out: the reported average is (0 + 20) / 2 = 10, not the
  mean 20 / 3 of the three successful methods.
\<close>

theorem average_drops_zero_comparable:
  "market_multiples_valuation zero_income_market ''SUBJ'' (Some [''PEER''])
     = Some \<lparr> average_metrics = [(''P/E'', 20)],
              valuations = [(''P/E'', Fin 0)],
              average_valuation = Some (Fin 0) \<rparr>
   \<and> perform_valuation zero_income_market ''SUBJ'' (Some [''PEER''])
     = Inr (Some \<lparr> ticker = ''SUBJ'', current_price = 50, company_name = ''SUBJ'',
                    methods = [(''P/E'', Fin 0), (''P/BV'', Fin 20)],
                    Average = Some (Fin 10) \<rparr>)"
proof -
  have subj: "get_financial_data zero_income_market ''SUBJ'' = Some zero_income_company"
    by (rule get_financial_data_serve) (simp add: zero_income_market_def)
  have peer: "get_financial_data zero_income_market ''PEER'' = Some pe_only_peer"
    by (rule get_financial_data_serve) (simp add: zero_income_market_def)
  have peer_info: "t_info (zero_income_market ''PEER'') = Inr (info pe_only_peer)"
    by (simp add: zero_income_market_def serve_def)
  have price: "current_price_of zero_income_company = Inr 50"
    by (simp add: current_price_of_def zero_income_company_def)
  have name: "longName (info zero_income_company) = None"
    by (simp add: zero_income_company_def)
  have dcf: "dcf_valuation zero_income_company 0.05 0.1 0.02 5 = None"
    by (simp add: dcf_valuation_def zero_income_company_def eval_defs)
  have e: "earnings_per_share zero_income_company = Inr (Fin 0)"
    by (simp add: earnings_per_share_def zero_income_company_def eval_defs)
  have b: "book_value_per_share zero_income_company = Inr (Fin 10)"
    by (simp add: book_value_per_share_def zero_income_company_def)
  have m1: "average_multiple zero_income_market zero_income_company ''trailingPE'' 15
              (Some [''PEER'']) = 20"
    by (simp add: average_multiple_def peer_info pe_only_peer_def)
  have m2: "average_multiple zero_income_market zero_income_company ''priceToBook'' 2
              (Some [''PEER'']) = 2"
    by (simp add: average_multiple_def get_default_def peer_info pe_only_peer_def
        zero_income_company_def)
  have pe: "pe_valuation zero_income_market zero_income_company (Some [''PEER''])
      = Some \<lparr> eps = Fin 0, average_pe = 20, pe_value_per_share = Fin 0 \<rparr>"
    by (simp add: pe_valuation_def e m1 then_do_def catch_def)
  have pbv: "pbv_valuation zero_income_market zero_income_company (Some [''PEER''])
      = Some \<lparr> bvps = Fin 10, average_pbv = 2, pbv_value_per_share = Fin 20 \<rparr>"
    by (simp add: pbv_valuation_def b m2 then_do_def catch_def)
  have ev: "ev_ebitda_valuation zero_income_market zero_income_company (Some [''PEER'']) = None"
    by (simp add: ev_ebitda_valuation_def ebitda_of_def zero_income_company_def eval_defs)
  have cds: "comparable_data zero_income_market [''PEER''] = [(''PEER'', pe_only_peer)]"
    by (simp add: comparable_data_def peer)
  have am: "metric_average ''P/E'' ''trailingPE'' [(''PEER'', pe_only_peer)] = [(''P/E'', 20)]"
    "metric_average ''P/BV'' ''priceToBook'' [(''PEER'', pe_only_peer)] = []"
    "metric_average ''EV/EBITDA'' ''enterpriseToEbitda'' [(''PEER'', pe_only_peer)] = []"
    "metric_average ''EV/Sales'' ''enterpriseToRevenue'' [(''PEER'', pe_only_peer)] = []"
    by (simp_all add: metric_average_def pe_only_peer_def)
  have mm: "market_multiples_valuation zero_income_market ''SUBJ'' (Some [''PEER''])
     = Some \<lparr> average_metrics = [(''P/E'', 20)],
              valuations = [(''P/E'', Fin 0)],
              average_valuation = Some (Fin 0) \<rparr>"
    by (simp add: market_multiples_valuation_def subj cds am mm_entry_def subscript_def
        then_do_def e np_sum_def Let_def)
  have mmm: "mm_methods zero_income_market ''SUBJ'' (Some [''PEER'']) = []"
    by (simp add: mm_methods_def mm)
  have pv: "perform_valuation zero_income_market ''SUBJ'' (Some [''PEER''])
     = Inr (Some \<lparr> ticker = ''SUBJ'', current_price = 50, company_name = ''SUBJ'',
                    methods = [(''P/E'', Fin 0), (''P/BV'', Fin 20)],
                    Average = Some (Fin 10) \<rparr>)"
    apply (simp only: perform_valuation_def subj option.case price then_do_def sum.case Let_def)
    apply (simp only: dcf pe pbv ev mmm)
    apply (simp add: name np_sum_def)
    done
  from mm pv show ?thesis by (rule conjI)
qed

subsection \<open>The share count\<close>

text \<open>
  Claim C1 (as stated, refuted). The claim makes every per-share method report
  "unavailable" when the profile has no share count. The code divides by the default 1
  instead: on a profile without \<open>sharesOutstanding\<close> the DCF method, the P/E method
  (earnings per share from net income) and the EV/EBITDA method all return a per-share
  value.
\<close>

theorem share_count_counterexample:
  "facts (info no_share_count_example) ''sharesOutstanding'' = None
   \<and> map_option dcf_value_per_share (dcf_valuation no_share_count_example 0.05 0.1 0.02 5)
       = Some (Fin (689280425 / 58564))
   \<and> map_option pe_value_per_share (pe_valuation no_market no_share_count_example None)
       = Some (Fin 1500)
   \<and> map_option ev_ebitda_value_per_share
         (ev_ebitda_valuation no_market no_share_count_example None)
       = Some (Fin 1400)"
  by (simp add: dcf_valuation_def pe_valuation_def ev_ebitda_valuation_def
      earnings_per_share_def ebitda_of_def average_multiple_def get_default_def
      no_share_count_example_def eval_defs Let_def upto.simps enumerate_eq_zip eval_nat_numeral)

lemma shares_absent: "facts p ''sharesOutstanding'' = None \<Longrightarrow> shares_outstanding p = 1"
  by (simp add: shares_outstanding_def)

lemma mm_entry_member:
  assumes "(n, v) \<in> set (mm_entry name am f)"
  shows "n = name \<and> (\<exists>avg. (name, avg) \<in> set am \<and> f avg = Inr v)"
proof (cases "map_of am name")
  case None
  with assms show ?thesis by (simp add: mm_entry_def)
next
  case (Some avg)
  then have mem: "(name, avg) \<in> set am" by (rule map_of_SomeD)
  from assms Some have "n = name \<and> f avg = Inr v"
    by (cases "f avg") (simp_all add: mm_entry_def)
  with mem show ?thesis by blast
qed

lemma per_share_from_ev_absent:
  assumes "facts (info td) ''sharesOutstanding'' = None"
    and "per_share_from_ev td ev = Inr v"
  shows "\<exists>c d. cash_and_debt (balance_sheet td) = Inr (c, d) \<and> v = Fin (ev + c - d)"
  using assms(2)
  by (auto simp: per_share_from_ev_def then_do_def shares_absent [OF assms(1)]
      split: sum.splits)

lemma eps_resolves_absent:
  assumes "facts (info fd) ''sharesOutstanding'' = None"
    and "facts (info fd) ''trailingEPS'' \<in> {None, Some 0}"
    and "earnings_per_share fd = Inr e"
  shows "\<exists>net_income. loc_last (income_stmt fd) ''Net Income'' = Inr net_income
           \<and> e = Fin net_income"
  using assms(2) assms(3)
  by (auto simp: earnings_per_share_def then_do_def shares_absent [OF assms(1)]
      split: sum.splits)

lemma mm_structure:
  assumes fetch: "get_financial_data yf t = Some fd"
    and mm: "market_multiples_valuation yf t tc = Some r"
  shows "valuations r =
           mm_entry ''P/E'' (average_metrics r) (\<lambda>avg.
             then_do (earnings_per_share fd) (\<lambda>e. Inr (np_mul e avg)))
         @ mm_entry ''P/BV'' (average_metrics r) (\<lambda>avg.
             then_do (book_value_per_share fd) (\<lambda>b. Inr (np_mul b avg)))
         @ mm_entry ''EV/EBITDA'' (average_metrics r) (\<lambda>avg.
             then_do (ebitda_of fd) (\<lambda>e. per_share_from_ev fd (e * avg)))
         @ mm_entry ''EV/Sales'' (average_metrics r) (\<lambda>avg.
             then_do (loc_last (income_stmt fd) ''Total Revenue'') (\<lambda>revenue.
             per_share_from_ev fd (revenue * avg)))"
proof -
  obtain ps where tc: "tc = Some ps"
    using mm by (cases tc) (simp_all add: market_multiples_valuation_def)
  show ?thesis
    using mm unfolding tc
    by (auto simp: market_multiples_valuation_def fetch Let_def subscript_def then_do_def)
qed

lemma mm_ev_ebitda_absent:
  assumes absent: "facts (info fd) ''sharesOutstanding'' = None"
    and fetch: "get_financial_data yf t = Some fd"
    and mm: "market_multiples_valuation yf t tc = Some r"
    and v: "(''EV/EBITDA'', v) \<in> set (valuations r)"
  shows "\<exists>e avg c d. ebitda_of fd = Inr e
           \<and> cash_and_debt (balance_sheet fd) = Inr (c, d)
           \<and> (''EV/EBITDA'', avg) \<in> set (average_metrics r)
           \<and> v = Fin (e * avg + c - d)"
proof -
  from v have "(''EV/EBITDA'', v) \<in> set (mm_entry ''EV/EBITDA'' (average_metrics r) (\<lambda>avg.
             then_do (ebitda_of fd) (\<lambda>e. per_share_from_ev fd (e * avg))))"
    unfolding mm_structure [OF fetch mm] by (auto dest: mm_entry_member)
  then obtain avg where avg: "(''EV/EBITDA'', avg) \<in> set (average_metrics r)"
    and f: "then_do (ebitda_of fd) (\<lambda>e. per_share_from_ev fd (e * avg)) = Inr v"
    using mm_entry_member by blast
  from f obtain e where e: "ebitda_of fd = Inr e" and p: "per_share_from_ev fd (e * avg) = Inr v"
    by (cases "ebitda_of fd") (simp_all add: then_do_def)
  from per_share_from_ev_absent [OF absent p] e avg show ?thesis by blast
qed

lemma mm_ev_sales_absent:
  assumes absent: "facts (info fd) ''sharesOutstanding'' = None"
    and fetch: "get_financial_data yf t = Some fd"
    and mm: "market_multiples_valuation yf t tc = Some r"
    and v: "(''EV/Sales'', v) \<in> set (valuations r)"
  shows "\<exists>revenue avg c d. loc_last (income_stmt fd) ''Total Revenue'' = Inr revenue
           \<and> cash_and_debt (balance_sheet fd) = Inr (c, d)
           \<and> (''EV/Sales'', avg) \<in> set (average_metrics r)
           \<and> v = Fin (revenue * avg + c - d)"
proof -
  from v have "(''EV/Sales'', v) \<in> set (mm_entry ''EV/Sales'' (average_metrics r) (\<lambda>avg.
             then_do (loc_last (income_stmt fd) ''Total Revenue'') (\<lambda>revenue.
             per_share_from_ev fd (revenue * avg))))"
    unfolding mm_structure [OF fetch mm] by (auto dest: mm_entry_member)
  then obtain avg where avg: "(''EV/Sales'', avg) \<in> set (average_metrics r)"
    and f: "then_do (loc_last (income_stmt fd) ''Total Revenue'') (\<lambda>revenue.
             per_share_from_ev fd (revenue * avg)) = Inr v"
    using mm_entry_member by blast
  from f obtain rev where e: "loc_last (income_stmt fd) ''Total Revenue'' = Inr rev"
    and p: "per_share_from_ev fd (rev * avg) = Inr v"
    by (cases "loc_last (income_stmt fd) ''Total Revenue''") (simp_all add: then_do_def)
  from per_share_from_ev_absent [OF absent p] e avg show ?thesis by blast
qed

lemma mm_pe_absent:
  assumes absent: "facts (info fd) ''sharesOutstanding'' = None"
    and falsy: "facts (info fd) ''trailingEPS'' \<in> {None, Some 0}"
    and fetch: "get_financial_data yf t = Some fd"
    and mm: "market_multiples_valuation yf t tc = Some r"
    and v: "(''P/E'', v) \<in> set (valuations r)"
  shows "\<exists>net_income avg. loc_last (income_stmt fd) ''Net Income'' = Inr net_income
           \<and> (''P/E'', avg) \<in> set (average_metrics r)
           \<and> v = Fin (net_income * avg)"
proof -
  from v have "(''P/E'', v) \<in> set (mm_entry ''P/E'' (average_metrics r) (\<lambda>avg.
             then_do (earnings_per_share fd) (\<lambda>e. Inr (np_mul e avg))))"
    unfolding mm_structure [OF fetch mm] by (auto dest: mm_entry_member)
  then obtain avg where avg: "(''P/E'', avg) \<in> set (average_metrics r)"
    and f: "then_do (earnings_per_share fd) (\<lambda>e. Inr (np_mul e avg)) = Inr v"
    using mm_entry_member by blast
  from f obtain e where e: "earnings_per_share fd = Inr e" and p: "v = np_mul e avg"
    by (cases "earnings_per_share fd") (auto simp: then_do_def)
  from eps_resolves_absent [OF absent falsy e] obtain ni
    where "loc_last (income_stmt fd) ''Net Income'' = Inr ni" and "e = Fin ni" by blast
  with p avg show ?thesis by auto
qed

text \<open>
  Claim C1 (amended). Let the profile have no share count. Then the share count in use is
  the default 1 and the per-share methods divide by it instead of reporting "unavailable":
  \<^item> DCF: when free cash flow, cash and debt resolve, at least one year is projected,
    \<open>discountRate \<noteq> terminalGrowthRate\<close> and \<open>1 + discountRate \<noteq> 0\<close>, the method returns an
    estimate whose per-share value is its equity value, enterprise value plus cash minus
    debt;
  \<^item> P/E: when the trailing EPS is absent or 0 and net income resolves, the method returns
    an estimate whose earnings per share are the net income and whose per-share value is
    net income times the multiple;
  \<^item> EV/EBITDA: when EBITDA, cash and debt resolve, the method returns an estimate whose
    per-share value is its equity value, EBITDA times the multiple plus cash minus debt;
  \<^item> comparable companies, for a target whose data is fetched: every EV/EBITDA value and
    every EV/Sales value it computes is the undivided equity value (EBITDA, or total
    revenue, times the averaged multiple, plus cash minus debt), and, when the trailing EPS
    is absent or 0, every P/E value it computes is net income times the averaged multiple.

  Nothing is said about a share count of zero, nor about whether a value of the program is
  finite.
\<close>

theorem share_count_default:
  assumes absent: "facts (info fd) ''sharesOutstanding'' = None"
  shows "shares_outstanding (info fd) = 1
    \<and> (free_cash_flow (cash_flow fd) = Inr f
         \<longrightarrow> cash_and_debt (balance_sheet fd) = Inr (cash, debt)
         \<longrightarrow> 1 \<le> years \<longrightarrow> dr \<noteq> tgr \<longrightarrow> 1 + dr \<noteq> 0
         \<longrightarrow> (\<exists>r. dcf_valuation fd g dr tgr years = Some r
                \<and> equity_value r = Fin (ref_enterprise_value f g dr tgr (nat years) + cash - debt)
                \<and> dcf_value_per_share r
                    = Fin (ref_enterprise_value f g dr tgr (nat years) + cash - debt)))
    \<and> (facts (info fd) ''trailingEPS'' \<in> {None, Some 0}
         \<longrightarrow> loc_last (income_stmt fd) ''Net Income'' = Inr net_income
         \<longrightarrow> (\<exists>r. pe_valuation yf fd tc = Some r \<and> eps r = Fin net_income
                \<and> pe_value_per_share r = Fin (net_income * average_pe r)))
    \<and> (ebitda_of fd = Inr e
         \<longrightarrow> cash_and_debt (balance_sheet fd) = Inr (cash, debt)
         \<longrightarrow> (\<exists>r. ev_ebitda_valuation yf fd tc = Some r
                \<and> ev_equity_value r = e * average_ev_ebitda r + cash - debt
                \<and> ev_ebitda_value_per_share r = Fin (ev_equity_value r)))
    \<and> (get_financial_data yf t = Some fd
         \<longrightarrow> (\<forall>r. market_multiples_valuation yf t tc = Some r
               \<longrightarrow> (\<forall>v. (''EV/EBITDA'', v) \<in> set (valuations r)
                      \<longrightarrow> (\<exists>e avg c d. ebitda_of fd = Inr e
                             \<and> cash_and_debt (balance_sheet fd) = Inr (c, d)
                             \<and> (''EV/EBITDA'', avg) \<in> set (average_metrics r)
                             \<and> v = Fin (e * avg + c - d)))
                 \<and> (\<forall>v. (''EV/Sales'', v) \<in> set (valuations r)
                      \<longrightarrow> (\<exists>revenue avg c d.
                               loc_last (income_stmt fd) ''Total Revenue'' = Inr revenue
                             \<and> cash_and_debt (balance_sheet fd) = Inr (c, d)
                             \<and> (''EV/Sales'', avg) \<in> set (average_metrics r)
                             \<and> v = Fin (revenue * avg + c - d)))
                 \<and> (facts (info fd) ''trailingEPS'' \<in> {None, Some 0}
                      \<longrightarrow> (\<forall>v. (''P/E'', v) \<in> set (valuations r)
                            \<longrightarrow> (\<exists>ni avg. loc_last (income_stmt fd) ''Net Income'' = Inr ni
                                   \<and> (''P/E'', avg) \<in> set (average_metrics r)
                                   \<and> v = Fin (ni * avg))))))"
proof (intro conjI impI allI)
  show "shares_outstanding (info fd) = 1"
    using absent by (rule shares_absent)
next
  assume "free_cash_flow (cash_flow fd) = Inr f"
    and "cash_and_debt (balance_sheet fd) = Inr (cash, debt)"
    and "1 \<le> years" and "dr \<noteq> tgr" and "1 + dr \<noteq> 0"
  from dcf_closed_form [OF this, of g]
  show "\<exists>r. dcf_valuation fd g dr tgr years = Some r
                \<and> equity_value r = Fin (ref_enterprise_value f g dr tgr (nat years) + cash - debt)
                \<and> dcf_value_per_share r
                    = Fin (ref_enterprise_value f g dr tgr (nat years) + cash - debt)"
    by (simp add: shares_absent [OF absent])
next
  assume "facts (info fd) ''trailingEPS'' \<in> {None, Some 0}"
    and "loc_last (income_stmt fd) ''Net Income'' = Inr net_income"
  then show "\<exists>r. pe_valuation yf fd tc = Some r \<and> eps r = Fin net_income
                \<and> pe_value_per_share r = Fin (net_income * average_pe r)"
    by (auto simp: pe_valuation_def earnings_per_share_def then_do_def catch_def Let_def
        shares_absent [OF absent])
next
  assume "ebitda_of fd = Inr e" and "cash_and_debt (balance_sheet fd) = Inr (cash, debt)"
  then show "\<exists>r. ev_ebitda_valuation yf fd tc = Some r
                \<and> ev_equity_value r = e * average_ev_ebitda r + cash - debt
                \<and> ev_ebitda_value_per_share r = Fin (ev_equity_value r)"
    by (simp add: ev_ebitda_valuation_def then_do_def catch_def Let_def
        shares_absent [OF absent])
next
  fix r v
  assume "get_financial_data yf t = Some fd" "market_multiples_valuation yf t tc = Some r"
    "(''EV/EBITDA'', v) \<in> set (valuations r)"
  from mm_ev_ebitda_absent [OF absent this]
  show "\<exists>e avg c d. ebitda_of fd = Inr e
                             \<and> cash_and_debt (balance_sheet fd) = Inr (c, d)
                             \<and> (''EV/EBITDA'', avg) \<in> set (average_metrics r)
                             \<and> v = Fin (e * avg + c - d)" .
next
  fix r v
  assume "get_financial_data yf t = Some fd" "market_multiples_valuation yf t tc = Some r"
    "(''EV/Sales'', v) \<in> set (valuations r)"
  from mm_ev_sales_absent [OF absent this]
  show "\<exists>revenue avg c d.
                               loc_last (income_stmt fd) ''Total Revenue'' = Inr revenue
                             \<and> cash_and_debt (balance_sheet fd) = Inr (c, d)
                             \<and> (''EV/Sales'', avg) \<in> set (average_metrics r)
                             \<and> v = Fin (revenue * avg + c - d)" .
next
  fix r v
  assume a: "get_financial_data yf t = Some fd" "market_multiples_valuation yf t tc = Some r"
    and falsy: "facts (info fd) ''trailingEPS'' \<in> {None, Some 0}"
    and v: "(''P/E'', v) \<in> set (valuations r)"
  from mm_pe_absent [OF absent falsy a v]
  show "\<exists>ni avg. loc_last (income_stmt fd) ''Net Income'' = Inr ni
                                   \<and> (''P/E'', avg) \<in> set (average_metrics r)
                                   \<and> v = Fin (ni * avg)" .
qed

theorem share_count_default_witness:
  "facts (info no_share_count_example) ''sharesOutstanding'' = None
   \<and> facts (info no_share_count_example) ''trailingEPS'' = None
   \<and> get_financial_data comparables_market ''SUBJ'' = Some no_share_count_example
   \<and> shares_outstanding (info no_share_count_example) = 1
   \<and> (\<exists>r. dcf_valuation no_share_count_example 0.05 0.1 0.02 5 = Some r
         \<and> equity_value r = Fin (689280425 / 58564)
         \<and> dcf_value_per_share r = Fin (689280425 / 58564))
   \<and> (\<exists>r. pe_valuation comparables_market no_share_count_example (Some [''PEER'']) = Some r
         \<and> eps r = Fin 100 \<and> pe_value_per_share r = Fin 2000)
   \<and> (\<exists>r. ev_ebitda_valuation comparables_market no_share_count_example (Some [''PEER''])
           = Some r
         \<and> ev_equity_value r = 1160 \<and> ev_ebitda_value_per_share r = Fin 1160)
   \<and> market_multiples_valuation comparables_market ''SUBJ'' (Some [''PEER''])
       = Some \<lparr> average_metrics = [(''P/E'', 20), (''EV/EBITDA'', 8)],
                valuations = [(''P/E'', Fin 2000), (''EV/EBITDA'', Fin 1160)],
                average_valuation = Some (Fin 1580) \<rparr>
   \<and> (\<exists>e avg c d. ebitda_of no_share_count_example = Inr e
         \<and> cash_and_debt (balance_sheet no_share_count_example) = Inr (c, d)
         \<and> Fin 1160 = Fin (e * avg + c - d))"
proof -
  have absent: "facts (info no_share_count_example) ''sharesOutstanding'' = None"
    "facts (info no_share_count_example) ''trailingEPS'' = None"
    by (simp_all add: no_share_count_example_def)
  have falsy: "facts (info no_share_count_example) ''trailingEPS'' \<in> {None, Some 0}"
    by (simp add: absent(2))
  have subj: "get_financial_data comparables_market ''SUBJ'' = Some no_share_count_example"
    by (rule get_financial_data_serve) (simp add: comparables_market_def)
  have peer: "get_financial_data comparables_market ''PEER'' = Some peer_company"
    by (rule get_financial_data_serve) (simp add: comparables_market_def)
  have peer_info: "t_info (comparables_market ''PEER'') = Inr (info peer_company)"
    by (simp add: comparables_market_def serve_def)
  have fcf: "free_cash_flow (cash_flow no_share_count_example) = Inr 800"
    by (simp add: no_share_count_example_def eval_defs)
  have cd: "cash_and_debt (balance_sheet no_share_count_example) = Inr (500, 300)"
    by (simp add: no_share_count_example_def eval_defs)
  have ni: "loc_last (income_stmt no_share_count_example) ''Net Income'' = Inr 100"
    by (simp add: no_share_count_example_def eval_defs)
  have ev5: "ref_enterprise_value 800 0.05 0.1 0.02 (nat 5) + 500 - 300 = 689280425 / 58564"
    by (simp add: ref_enterprise_value_def ref_terminal_value_def ref_projected_flow_def
        eval_nat_numeral)
  have e1: "earnings_per_share no_share_count_example = Inr (Fin 100)"
    by (simp add: earnings_per_share_def no_share_count_example_def eval_defs)
  have e3: "ebitda_of no_share_count_example = Inr 120"
    by (simp add: ebitda_of_def no_share_count_example_def eval_defs)
  have ps: "per_share_from_ev no_share_count_example ev = Inr (Fin (ev + 500 - 300))" for ev
    by (simp add: per_share_from_ev_def cd then_do_def shares_absent [OF absent(1)])
  have m1: "average_multiple comparables_market no_share_count_example ''trailingPE'' 15
              (Some [''PEER'']) = 20"
    by (simp add: average_multiple_def peer_info peer_company_def)
  have m3: "average_multiple comparables_market no_share_count_example ''enterpriseToEbitda'' 10
              (Some [''PEER'']) = 8"
    by (simp add: average_multiple_def peer_info peer_company_def)
  have cds: "comparable_data comparables_market [''PEER''] = [(''PEER'', peer_company)]"
    by (simp add: comparable_data_def peer)
  have am: "metric_average ''P/E'' ''trailingPE'' [(''PEER'', peer_company)] = [(''P/E'', 20)]"
    "metric_average ''P/BV'' ''priceToBook'' [(''PEER'', peer_company)] = []"
    "metric_average ''EV/EBITDA'' ''enterpriseToEbitda'' [(''PEER'', peer_company)]
       = [(''EV/EBITDA'', 8)]"
    "metric_average ''EV/Sales'' ''enterpriseToRevenue'' [(''PEER'', peer_company)] = []"
    by (simp_all add: metric_average_def peer_company_def)
  have mm: "market_multiples_valuation comparables_market ''SUBJ'' (Some [''PEER''])
       = Some \<lparr> average_metrics = [(''P/E'', 20), (''EV/EBITDA'', 8)],
                valuations = [(''P/E'', Fin 2000), (''EV/EBITDA'', Fin 1160)],
                average_valuation = Some (Fin 1580) \<rparr>"
    by (simp add: market_multiples_valuation_def subj cds am mm_entry_def
        subscript_def then_do_def e1 e3 ps np_sum_def Let_def)
  note inst = share_count_default [OF absent(1), where f = 800 and cash = 500 and debt = 300
      and years = 5 and dr = "0.1" and tgr = "0.02" and g = "0.05" and net_income = 100
      and yf = comparables_market and tc = "Some [''PEER'']" and e = 120 and t = "''SUBJ''"]
  have c0: "shares_outstanding (info no_share_count_example) = 1"
    by (rule inst [THEN conjunct1])
  have rates: "(1 :: int) \<le> 5" "(0.1 :: real) \<noteq> 0.02" "1 + (0.1 :: real) \<noteq> 0"
    by simp_all
  have c1: "\<exists>r. dcf_valuation no_share_count_example 0.05 0.1 0.02 5 = Some r
         \<and> equity_value r = Fin (689280425 / 58564)
         \<and> dcf_value_per_share r = Fin (689280425 / 58564)"
    using inst [THEN conjunct2, THEN conjunct1, THEN mp, OF fcf, THEN mp, OF cd,
        THEN mp, OF rates(1), THEN mp, OF rates(2), THEN mp, OF rates(3)]
    by (simp only: ev5)
  obtain r2 where r2: "pe_valuation comparables_market no_share_count_example (Some [''PEER''])
      = Some r2" and eps2: "eps r2 = Fin 100"
    and v2: "pe_value_per_share r2 = Fin (100 * average_pe r2)"
    using inst [THEN conjunct2, THEN conjunct2, THEN conjunct1, THEN mp, OF falsy,
        THEN mp, OF ni]
    by (elim exE conjE)
  have a2: "average_pe r2 = 20"
    using r2 by (auto simp: pe_valuation_def e1 m1 then_do_def catch_def)
  have c2: "\<exists>r. pe_valuation comparables_market no_share_count_example (Some [''PEER'']) = Some r
         \<and> eps r = Fin 100 \<and> pe_value_per_share r = Fin 2000"
    using r2 eps2 v2 a2 by simp
  obtain r3 where r3: "ev_ebitda_valuation comparables_market no_share_count_example
      (Some [''PEER'']) = Some r3"
    and q3: "ev_equity_value r3 = 120 * average_ev_ebitda r3 + 500 - 300"
    and v3: "ev_ebitda_value_per_share r3 = Fin (ev_equity_value r3)"
    using inst [THEN conjunct2, THEN conjunct2, THEN conjunct2, THEN conjunct1,
        THEN mp, OF e3, THEN mp, OF cd]
    by (elim exE conjE)
  have a3: "average_ev_ebitda r3 = 8"
    using r3 by (auto simp: ev_ebitda_valuation_def e3 m3 cd then_do_def catch_def Let_def)
  have c3: "\<exists>r. ev_ebitda_valuation comparables_market no_share_count_example (Some [''PEER''])
           = Some r
         \<and> ev_equity_value r = 1160 \<and> ev_ebitda_value_per_share r = Fin 1160"
    using r3 q3 v3 a3 by simp
  have mem: "(''EV/EBITDA'', Fin 1160)
      \<in> set (valuations \<lparr> average_metrics = [(''P/E'', 20), (''EV/EBITDA'', 8)],
                valuations = [(''P/E'', Fin 2000), (''EV/EBITDA'', Fin 1160)],
                average_valuation = Some (Fin 1580) \<rparr>)"
    by simp
  have c5: "\<exists>e avg c d. ebitda_of no_share_count_example = Inr e
         \<and> cash_and_debt (balance_sheet no_share_count_example) = Inr (c, d)
         \<and> Fin 1160 = Fin (e * avg + c - d)"
    using inst [THEN conjunct2, THEN conjunct2, THEN conjunct2, THEN conjunct2,
        THEN mp, OF subj, THEN spec, THEN mp, OF mm, THEN conjunct1, THEN spec, THEN mp, OF mem]
    by blast
  from absent subj c0 c1 c2 c3 mm c5 show ?thesis by (intro conjI)
qed

end
